theory Spec2Isabelle
  imports Complex_Main
begin

section \<open>Values, failures and the data provider\<close>

text \<open>
  The valuation scripts compute on Python floats. The valuation engine is modelled under
  exact arithmetic: a float is a \<^typ>\<open>real\<close>, so rounding is not represented. A Python
  exception is a value of \<open>pyexn\<close>. Every early \<open>return None\<close> of the source is a value
  of \<open>error\<close>, named after the message that branch prints:
  \<^item> \<open>InvalidAssumption\<close>: "Discount rate must be greater than terminal growth rate",
    "Required rate of return must be greater than the growth rate";
  \<^item> \<open>NoDividendData\<close>: "No dividend data found" (\<open>dividends.empty\<close>);
  \<^item> \<open>MissingFinancialData\<close>: "Could not retrieve current FCF",
    "Could not calculate Free Cash Flow";
  \<^item> \<open>MissingShareCount\<close>: "Could not retrieve shares outstanding",
    "Shares Outstanding is zero";
  \<^item> \<open>Caught e\<close>: the handler of \<open>except Exception\<close> ran for exception \<open>e\<close>;
  \<^item> \<open>Uncaught e\<close>: exception \<open>e\<close> left the function.
\<close>

datatype pyexn = IndexError | TypeError | ValueError | ProviderFailure

datatype error =
    InvalidAssumption
  | NoDividendData
  | MissingFinancialData
  | MissingShareCount
  | Caught pyexn
  | Uncaught pyexn

text \<open>
  What the data provider answers for one ticker. Each attribute access may raise.
  \<open>cashflow\<close> maps a row label of the cash-flow statement to its most recent value
  (\<open>.iloc[0]\<close>); \<open>info\<close> is a dictionary whose values may be Python's \<open>None\<close>
  (the inner \<open>option\<close>); \<open>dividends\<close> is the dividend history, oldest first.
\<close>

record stock =
  cashflow :: "pyexn + (string \<rightharpoonup> real)"
  info :: "pyexn + (string \<rightharpoonup> real option)"
  dividends :: "pyexn + real list"

definition dict_get :: "(string \<rightharpoonup> 'v) \<Rightarrow> string \<Rightarrow> 'v \<Rightarrow> 'v" where
  \<comment> \<open>\<open>d.get(key, default)\<close>\<close>
  "dict_get d key dflt = (case d key of None \<Rightarrow> dflt | Some v \<Rightarrow> v)"


section \<open>Dividend discount model\<close>




section \<open>Discounted cash flow\<close>

subsection \<open>Free cash flow\<close>

text \<open>\<open>get_free_cash_flow\<close> of discounted_cash_flow.py.\<close>

definition get_free_cash_flow :: "stock \<Rightarrow> real option" where
  "get_free_cash_flow s =
     (case cashflow s of
        Inl e \<Rightarrow> None
      | Inr cash_flow \<Rightarrow>
          (case cash_flow ''Free Cash Flow'' of
             Some fcf \<Rightarrow> Some fcf
           | None \<Rightarrow>
               (case (cash_flow ''Total Cash From Operating Activities'',
                      cash_flow ''Capital Expenditures'') of
                  (Some operating_cf, Some capex) \<Rightarrow> Some (operating_cf + capex)
                | _ \<Rightarrow> None)))"

text \<open>\<open>get_free_cash_flow\<close> of stock_dashboard.py, which first tests \<open>cash_flow.empty\<close>.\<close>

definition get_free_cash_flow_dashboard :: "stock \<Rightarrow> real option" where
  "get_free_cash_flow_dashboard s =
     (case cashflow s of
        Inl e \<Rightarrow> None
      | Inr cash_flow \<Rightarrow>
          if dom cash_flow = {} then None
          else
            (case cash_flow ''Free Cash Flow'' of
               Some fcf \<Rightarrow> Some fcf
             | None \<Rightarrow>
                 (case (cash_flow ''Total Cash From Operating Activities'',
                        cash_flow ''Capital Expenditures'') of
                    (Some operating_cf, Some capex) \<Rightarrow> Some (operating_cf + capex)
                  | _ \<Rightarrow> None)))"

subsection \<open>The standalone script\<close>

text \<open>
  The projection loop of \<open>calculate_dcf_value\<close>:
  \<^verbatim>\<open>for i in range(1, years_to_project + 1)\<close>, reading \<open>projected_fcf[-1]\<close> from the
  second round on. Reading the last element of an empty list raises \<open>IndexError\<close>.
\<close>

definition py_range :: "int \<Rightarrow> int \<Rightarrow> int list" where
  \<comment> \<open>\<open>range(a, b)\<close>\<close>
  "py_range a b = map (\<lambda>k. a + int k) [0..<nat (b - a)]"

fun project_loop :: "real \<Rightarrow> real \<Rightarrow> int list \<Rightarrow> real list \<Rightarrow> pyexn + real list" where
  "project_loop current_fcf g [] projected_fcf = Inr projected_fcf"
| "project_loop current_fcf g (i # rest) projected_fcf =
     (if i = 1 then
        project_loop current_fcf g rest (projected_fcf @ [current_fcf * (1 + g)])
      else if projected_fcf = [] then Inl IndexError
      else project_loop current_fcf g rest (projected_fcf @ [last projected_fcf * (1 + g)]))"

text \<open>
  The local values of \<open>calculate_dcf_value\<close> after the projection: the present values
  of the projected flows, the terminal value on the last projected flow, and the total
  enterprise value. The exponent \<open>years_to_project\<close> is only reached with
  \<open>years_to_project \<ge> 1\<close>. At a discount rate of \<open>-1\<close> the source divides by zero,
  which yields an infinity or NaN on its floats; division on \<^typ>\<open>real\<close> does not
  represent that, so every statement below about a computed value excludes that rate.
  Likewise every statement about a computed value is one of exact arithmetic: on doubles
  the iterated products and the sums are rounded at each step.
\<close>

definition pv_fcf :: "real list \<Rightarrow> real \<Rightarrow> real list" where
  "pv_fcf projected_fcf discount_rate =
     map (\<lambda>(i, fcf). fcf / (1 + discount_rate) ^ (i + 1)) (enumerate 0 projected_fcf)"

definition terminal_value :: "real \<Rightarrow> real \<Rightarrow> real \<Rightarrow> real" where
  "terminal_value last_projected_fcf discount_rate terminal_growth_rate =
     (last_projected_fcf * (1 + terminal_growth_rate)) / (discount_rate - terminal_growth_rate)"

definition total_enterprise_value :: "real list \<Rightarrow> int \<Rightarrow> real \<Rightarrow> real \<Rightarrow> real" where
  "total_enterprise_value projected_fcf years_to_project discount_rate terminal_growth_rate =
     (let pv_of_explicit_fcf = sum_list (pv_fcf projected_fcf discount_rate);
          pv_terminal_value =
            terminal_value (last projected_fcf) discount_rate terminal_growth_rate
              / (1 + discount_rate) ^ nat years_to_project
      in pv_of_explicit_fcf + pv_terminal_value)"

text \<open>
  What the script prints, in order: each constructor stands for the \<open>print\<close> calls of one
  step and carries the numbers they show.
\<close>

datatype printed =
    Print_assumptions real int real real real
  | Print_projected "real list"
  | Print_pv_explicit real
  | Print_terminal_value real
  | Print_pv_terminal_value real
  | Print_enterprise_value real
  | Print_equity real real real real real
  | Print_error error

text \<open>
  \<open>calculate_dcf_value\<close> of discounted_cash_flow.py. The result is what was printed and
  what was returned. \<open>fcf_growth_rate_long_term\<close> is a parameter the body never reads.
\<close>

definition calculate_dcf_value ::
  "stock \<Rightarrow> int \<Rightarrow> real \<Rightarrow> real \<Rightarrow> real \<Rightarrow> real \<Rightarrow> printed list \<times> (error + real)" where
  "calculate_dcf_value s years_to_project fcf_growth_rate_short_term fcf_growth_rate_long_term
       discount_rate terminal_growth_rate =
     (case get_free_cash_flow s of
        None \<Rightarrow> ([Print_error MissingFinancialData], Inl MissingFinancialData)
      | Some current_fcf \<Rightarrow>
          let out1 = [Print_assumptions current_fcf years_to_project fcf_growth_rate_short_term
                        discount_rate terminal_growth_rate] in
          (case project_loop current_fcf fcf_growth_rate_short_term
                  (py_range 1 (years_to_project + 1)) [] of
             Inl e \<Rightarrow> (out1, Inl (Uncaught e))
           | Inr projected_fcf \<Rightarrow>
               let out2 = out1 @ [Print_projected projected_fcf];
                   out3 = out2 @ [Print_pv_explicit (sum_list (pv_fcf projected_fcf discount_rate))]
               in
               if projected_fcf = [] then (out3, Inl (Uncaught IndexError))
               else if discount_rate \<le> terminal_growth_rate then
                 (out3 @ [Print_error InvalidAssumption], Inl InvalidAssumption)
               else
                 let tv = terminal_value (last projected_fcf) discount_rate terminal_growth_rate;
                     out4 = out3 @ [Print_terminal_value tv];
                     out5 = out4 @ [Print_pv_terminal_value
                                      (tv / (1 + discount_rate) ^ nat years_to_project)];
                     tev = total_enterprise_value projected_fcf years_to_project
                             discount_rate terminal_growth_rate;
                     out6 = out5 @ [Print_enterprise_value tev]
                 in
                 (case info s of
                    Inl e \<Rightarrow> (out6 @ [Print_error (Caught e)], Inl (Caught e))
                  | Inr stock_info \<Rightarrow>
                      let cash = dict_get stock_info ''totalCash'' (Some 0);
                          debt = dict_get stock_info ''totalDebt'' (Some 0);
                          shares_outstanding = dict_get stock_info ''sharesOutstanding'' None
                      in
                      if shares_outstanding = None \<or> shares_outstanding = Some 0 then
                        (out6 @ [Print_error MissingShareCount], Inl MissingShareCount)
                      else
                        (case (cash, debt, shares_outstanding) of
                           (Some c, Some d, Some sh) \<Rightarrow>
                             let equity_value = tev + c - d;
                                 intrinsic_value_per_share = equity_value / sh
                             in (out6 @ [Print_equity c d sh equity_value
                                           intrinsic_value_per_share],
                                 Inr intrinsic_value_per_share)
                         | _ \<Rightarrow>
                             (out6 @ [Print_error (Caught TypeError)],
                              Inl (Caught TypeError))))))"

subsection \<open>The dashboard\<close>

text \<open>
  The local values of \<open>perform_dcf_analysis\<close> of stock_dashboard.py, whose horizon is
  fixed at five years: the projected flows (a comprehension over \<open>range(1, 6)\<close>), their
  discounted values and the enterprise value. Its terminal value is the expression of
  \<open>terminal_value\<close> above on \<open>future_fcf[-1]\<close>.
\<close>

definition future_fcf :: "real \<Rightarrow> real \<Rightarrow> real list" where
  "future_fcf free_cash_flow growth_rate =
     map (\<lambda>i. free_cash_flow * (1 + growth_rate) ^ i) [1..<6]"

definition discounted_fcf :: "real list \<Rightarrow> real \<Rightarrow> real list" where
  "discounted_fcf flows discount_rate =
     map (\<lambda>(i, fcf). fcf / (1 + discount_rate) ^ (i + 1)) (enumerate 0 flows)"

definition enterprise_value :: "real list \<Rightarrow> real \<Rightarrow> real \<Rightarrow> real" where
  "enterprise_value flows discount_rate terminal_growth_rate =
     (let discounted_terminal_value =
            terminal_value (last flows) discount_rate terminal_growth_rate
              / (1 + discount_rate) ^ 5
      in sum_list (discounted_fcf flows discount_rate) + discounted_terminal_value)"

text \<open>
  \<open>perform_dcf_analysis\<close>: it returns the triple (intrinsic value, projected flows,
  terminal value), or no value.
\<close>

definition perform_dcf_analysis ::
  "stock \<Rightarrow> real \<Rightarrow> real \<Rightarrow> real \<Rightarrow> error + (real \<times> real list \<times> real)" where
  "perform_dcf_analysis s growth_rate discount_rate terminal_growth_rate =
     (if discount_rate \<le> terminal_growth_rate then Inl InvalidAssumption
      else
        (case get_free_cash_flow_dashboard s of
           None \<Rightarrow> Inl MissingFinancialData
         | Some free_cash_flow \<Rightarrow>
             let flows = future_fcf free_cash_flow growth_rate;
                 tv = terminal_value (last flows) discount_rate terminal_growth_rate;
                 ev = enterprise_value flows discount_rate terminal_growth_rate
             in
             (case info s of
                Inl e \<Rightarrow> Inl (Caught e)
              | Inr stock_info \<Rightarrow>
                  let total_debt = dict_get stock_info ''totalDebt'' (Some 0);
                      cash_and_equivalents = dict_get stock_info ''totalCash'' (Some 0);
                      shares_outstanding = dict_get stock_info ''sharesOutstanding'' (Some 1)
                  in
                  if shares_outstanding = Some 0 then Inl MissingShareCount
                  else
                    (case (total_debt, cash_and_equivalents, shares_outstanding) of
                       (Some d, Some c, Some sh) \<Rightarrow>
                         let equity_value = ev - d + c;
                             intrinsic_value = equity_value / sh
                         in Inr (intrinsic_value, flows, tv)
                     | _ \<Rightarrow> Inl (Caught TypeError)))))"

subsection \<open>The closed form of the specification\<close>

text \<open>
  The enterprise value as the specification writes it: the projected flow of year \<open>i + 1\<close>
  is \<open>current_fcf * (1 + g) ^ (i + 1)\<close>, discounted by \<open>(1 + r) ^ (i + 1)\<close>, for
  \<open>i = 0, \<dots>, years - 1\<close>; the terminal value on the last projected flow is discounted
  by \<open>(1 + r) ^ years\<close>.
\<close>

definition closed_projection :: "real \<Rightarrow> real \<Rightarrow> nat \<Rightarrow> real list" where
  "closed_projection current_fcf g years =
     map (\<lambda>i. current_fcf * (1 + g) ^ (i + 1)) [0..<years]"

definition closed_form_ev :: "real \<Rightarrow> nat \<Rightarrow> real \<Rightarrow> real \<Rightarrow> real \<Rightarrow> real" where
  "closed_form_ev current_fcf years g r tg =
     (\<Sum>i<years. (current_fcf * (1 + g) ^ (i + 1)) / (1 + r) ^ (i + 1))
       + ((current_fcf * (1 + g) ^ years) * (1 + tg) / (r - tg)) / (1 + r) ^ years"


section \<open>Series of floats\<close>

text \<open>
  The technical signals are computed by pandas on series of double-precision floats,
  where a missing value is NaN and a division by zero gives an infinity instead of
  raising. A float is a finite number or one of the three special values, which follow
  IEEE 754. The sign of a zero is not represented: a non-zero finite number divided by
  zero is the infinity of the dividend's sign. The operations \<open>fl_add\<close>, \<open>fl_sub\<close>,
  \<open>fl_mul\<close> and \<open>fl_div\<close> return the exact result on finite numbers; the operations
  \<open>d_add\<close>, \<open>d_sub\<close>, \<open>d_mul\<close> and \<open>d_div\<close> further below round it to the nearest
  double.
\<close>

datatype fl = Fin real | PInf | NInf | NaN

fun is_fin :: "fl \<Rightarrow> bool" where
  "is_fin (Fin x) = True"
| "is_fin _ = False"

fun fin_val :: "fl \<Rightarrow> real" where
  "fin_val (Fin x) = x"
| "fin_val _ = 0"

fun fl_neg :: "fl \<Rightarrow> fl" where
  "fl_neg (Fin x) = Fin (- x)"
| "fl_neg PInf = NInf"
| "fl_neg NInf = PInf"
| "fl_neg NaN = NaN"

fun fl_add :: "fl \<Rightarrow> fl \<Rightarrow> fl" where
  "fl_add NaN b = NaN"
| "fl_add a NaN = NaN"
| "fl_add (Fin x) (Fin y) = Fin (x + y)"
| "fl_add PInf NInf = NaN"
| "fl_add NInf PInf = NaN"
| "fl_add PInf b = PInf"
| "fl_add a PInf = PInf"
| "fl_add NInf b = NInf"
| "fl_add a NInf = NInf"

definition fl_sub :: "fl \<Rightarrow> fl \<Rightarrow> fl" where
  "fl_sub a b = fl_add a (fl_neg b)"

definition inf_of_sign :: "real \<Rightarrow> fl" where
  "inf_of_sign x = (if 0 < x then PInf else if x < 0 then NInf else NaN)"

fun fl_mul :: "fl \<Rightarrow> fl \<Rightarrow> fl" where
  "fl_mul NaN b = NaN"
| "fl_mul a NaN = NaN"
| "fl_mul (Fin x) (Fin y) = Fin (x * y)"
| "fl_mul (Fin x) PInf = inf_of_sign x"
| "fl_mul (Fin x) NInf = inf_of_sign (- x)"
| "fl_mul PInf (Fin y) = inf_of_sign y"
| "fl_mul NInf (Fin y) = inf_of_sign (- y)"
| "fl_mul PInf PInf = PInf"
| "fl_mul NInf NInf = PInf"
| "fl_mul PInf NInf = NInf"
| "fl_mul NInf PInf = NInf"

fun fl_div :: "fl \<Rightarrow> fl \<Rightarrow> fl" where
  "fl_div NaN b = NaN"
| "fl_div a NaN = NaN"
| "fl_div (Fin x) (Fin y) = (if y \<noteq> 0 then Fin (x / y) else inf_of_sign x)"
| "fl_div (Fin x) PInf = Fin 0"
| "fl_div (Fin x) NInf = Fin 0"
| "fl_div PInf (Fin y) = (if 0 \<le> y then PInf else NInf)"
| "fl_div NInf (Fin y) = (if 0 \<le> y then NInf else PInf)"
| "fl_div a b = NaN"

fun fl_abs :: "fl \<Rightarrow> fl" where
  "fl_abs (Fin x) = Fin \<bar>x\<bar>"
| "fl_abs PInf = PInf"
| "fl_abs NInf = PInf"
| "fl_abs NaN = NaN"

text \<open>Comparisons: every comparison with NaN is false.\<close>

fun fl_less :: "fl \<Rightarrow> fl \<Rightarrow> bool" where
  "fl_less (Fin x) (Fin y) = (x < y)"
| "fl_less (Fin x) PInf = True"
| "fl_less NInf (Fin y) = True"
| "fl_less NInf PInf = True"
| "fl_less a b = False"

definition fl_le :: "fl \<Rightarrow> fl \<Rightarrow> bool" where
  "fl_le a b = (fl_less a b \<or> (a = b \<and> a \<noteq> NaN))"

definition fl_gt :: "fl \<Rightarrow> fl \<Rightarrow> bool" where
  "fl_gt a b = fl_less b a"

subsection \<open>Double precision\<close>

text \<open>
  IEEE 754 binary64 with rounding to nearest, ties to even: \<open>rd_double x\<close> is the double
  nearest to the real number \<open>x\<close>. With \<open>e\<close> the binary exponent of \<open>x\<close>
  (\<open>2 ^ e \<le> |x| < 2 ^ (e + 1)\<close>), and \<open>e = -1022\<close> for the smaller numbers, where the
  doubles are subnormal, the doubles around \<open>x\<close> are the integer multiples of
  \<open>2 ^ (e - 52)\<close>; a rounded magnitude of \<open>2 ^ 1024\<close> or more overflows to an infinity.
  A basic operation on two doubles returns the rounded exact result, and a decimal
  literal of the source denotes the rounded decimal fraction.
\<close>

definition round_half_even :: "real \<Rightarrow> int" where
  "round_half_even m =
     (let f = \<lfloor>m\<rfloor>; r = m - of_int f
      in if r < 1 / 2 then f else if 1 / 2 < r then f + 1 else if even f then f else f + 1)"

fun exponent_up :: "nat \<Rightarrow> real \<Rightarrow> int \<Rightarrow> int" where
  "exponent_up 0 a e = e"
| "exponent_up (Suc n) a e = (if 2 powi (e + 1) \<le> a then exponent_up n a (e + 1) else e)"

fun exponent_down :: "nat \<Rightarrow> real \<Rightarrow> int \<Rightarrow> int" where
  "exponent_down 0 a e = e"
| "exponent_down (Suc n) a e = (if a < 2 powi e then exponent_down n a (e - 1) else e)"

definition binary_exponent :: "real \<Rightarrow> int" where
  "binary_exponent x =
     (let a = \<bar>x\<bar> in if 1 \<le> a then exponent_up 1024 a 0 else exponent_down 1022 a 0)"

definition rd_double :: "real \<Rightarrow> fl" where
  "rd_double x =
     (if x = 0 then Fin 0
      else
        let u = 2 powi (binary_exponent x - 52);
            r = of_int (round_half_even (x / u)) * u
        in if 2 powi 1024 \<le> \<bar>r\<bar> then inf_of_sign x else Fin r)"

fun d_sub :: "fl \<Rightarrow> fl \<Rightarrow> fl" where
  "d_sub (Fin x) (Fin y) = rd_double (x - y)"
| "d_sub a b = fl_sub a b"

fun d_mul :: "fl \<Rightarrow> fl \<Rightarrow> fl" where
  "d_mul (Fin x) (Fin y) = rd_double (x * y)"
| "d_mul a b = fl_mul a b"

fun d_add :: "fl \<Rightarrow> fl \<Rightarrow> fl" where
  "d_add (Fin x) (Fin y) = rd_double (x + y)"
| "d_add a b = fl_add a b"

fun d_div :: "fl \<Rightarrow> fl \<Rightarrow> fl" where
  "d_div (Fin x) (Fin y) = (if y \<noteq> 0 then rd_double (x / y) else inf_of_sign x)"
| "d_div a b = fl_div a b"

subsection \<open>Series\<close>

text \<open>
  The pandas operations the source uses. \<open>rolling(window=w).mean()\<close> has
  \<open>min_periods = w\<close>: the value at position \<open>i\<close> is the mean of the \<open>w\<close> entries ending
  at \<open>i\<close> when there are \<open>w\<close> of them and all are finite, and NaN otherwise. pandas
  computes this mean on doubles from a running sum, and the rounding of that sum is not
  modelled: \<open>rolling_mean\<close> is the mean under exact arithmetic, and a function that only
  compares rolling means takes the rolling mean as its parameter \<open>rolling\<close>, which
  stands for what pandas returns.
  \<open>diff()\<close> and \<open>shift(1)\<close> put NaN at position 0. \<open>s.where(cond, other)\<close> keeps the
  entries that satisfy \<open>cond\<close> and replaces the others. \<open>max()\<close> and \<open>min()\<close> skip NaN
  and are NaN on a series with no other entry.
\<close>

definition rolling_mean :: "nat \<Rightarrow> fl list \<Rightarrow> fl list" where
  "rolling_mean w xs =
     map (\<lambda>i. if w = 0 \<or> i + 1 < w then NaN
              else
                let entries = take w (drop (i + 1 - w) xs) in
                if list_all is_fin entries then Fin (sum_list (map fin_val entries) / real w)
                else NaN)
         [0..<length xs]"

text \<open>
  A rolling mean on doubles, which sums each window from left to right and divides the
  sum: one function that \<open>rolling\<close> can stand for. It is not the running sum of pandas.
\<close>

definition summed_rolling_mean :: "nat \<Rightarrow> fl list \<Rightarrow> fl list" where
  "summed_rolling_mean w xs =
     map (\<lambda>i. if w = 0 \<or> i + 1 < w then NaN
              else
                let entries = take w (drop (i + 1 - w) xs) in
                if list_all is_fin entries
                then d_div (fold (\<lambda>x s. d_add s x) entries (Fin 0)) (Fin (real w))
                else NaN)
         [0..<length xs]"

definition moving_average :: "nat \<Rightarrow> real list \<Rightarrow> nat \<Rightarrow> real" where
  \<comment> \<open>the mean of the \<open>w\<close> entries ending at position \<open>t\<close>\<close>
  "moving_average w closes t = (\<Sum>k<w. closes ! (t - k)) / real w"

definition series_diff :: "fl list \<Rightarrow> fl list" where
  "series_diff xs = map (\<lambda>i. if i = 0 then NaN else fl_sub (xs ! i) (xs ! (i - 1))) [0..<length xs]"

definition shift1 :: "fl list \<Rightarrow> fl list" where
  "shift1 xs = map (\<lambda>i. if i = 0 then NaN else xs ! (i - 1)) [0..<length xs]"

definition series_where :: "fl list \<Rightarrow> (fl \<Rightarrow> bool) \<Rightarrow> fl \<Rightarrow> fl list" where
  "series_where xs cond other = map (\<lambda>x. if cond x then x else other) xs"

definition series_max :: "fl list \<Rightarrow> fl" where
  "series_max xs =
     (case filter (\<lambda>x. x \<noteq> NaN) xs of
        [] \<Rightarrow> NaN
      | x # rest \<Rightarrow> fold (\<lambda>y best. if fl_less best y then y else best) rest x)"

definition series_min :: "fl list \<Rightarrow> fl" where
  "series_min xs =
     (case filter (\<lambda>x. x \<noteq> NaN) xs of
        [] \<Rightarrow> NaN
      | x # rest \<Rightarrow> fold (\<lambda>y best. if fl_less y best then y else best) rest x)"

text \<open>
  A price history: one row per session, with the index (the session's timestamp, of an
  arbitrary type) and the prices the source reads. The provider's prices are finite
  doubles.
\<close>

record 'd bar =
  Date :: 'd
  High :: real
  Low :: real
  Close :: real

type_synonym 'd frame = "'d bar list"


section \<open>Technical signals\<close>

subsection \<open>Golden cross\<close>

text \<open>
  \<open>calculate_golden_cross\<close> of sp500_scanner.py, with the rolling mean of pandas as the
  parameter \<open>rolling\<close>. The frame may be \<open>None\<close>. The result is the pair
  \<open>(cross_date, is_bullish)\<close>; \<open>(None, None)\<close> is the outcome for a missing or too short
  history. The windows are natural numbers; every caller leaves them at their defaults
  50 and 200.
\<close>

definition calculate_golden_cross ::
  "(nat \<Rightarrow> fl list \<Rightarrow> fl list) \<Rightarrow> 'd frame option \<Rightarrow> nat \<Rightarrow> nat
     \<Rightarrow> 'd option \<times> bool option" where
  "calculate_golden_cross rolling df short_window long_window =
     (case df of
        None \<Rightarrow> (None, None)
      | Some rows \<Rightarrow>
          if length rows < long_window then (None, None)
          else
            let closes = map (\<lambda>b. Fin (Close b)) rows;
                sma50 = rolling short_window closes;
                sma200 = rolling long_window closes;
                prev_sma50 = shift1 sma50;
                prev_sma200 = shift1 sma200;
                mask = map (\<lambda>i. fl_gt (sma50 ! i) (sma200 ! i)
                                  \<and> fl_le (prev_sma50 ! i) (prev_sma200 ! i))
                         [0..<length rows];
                cross_dates = map (\<lambda>i. Date (rows ! i))
                                (filter (\<lambda>i. mask ! i) [0..<length rows]);
                cross_date = (if cross_dates \<noteq> [] then Some (last cross_dates) else None);
                is_bullish = (if sma50 \<noteq> [] \<and> sma200 \<noteq> []
                              then fl_gt (last sma50) (last sma200) else False)
            in (cross_date, Some is_bullish))"

text \<open>
  The specification's reading, on the two series of moving averages that pandas
  returns: a cross at session \<open>t\<close>, which needs a prior session, and the sessions of a
  history at which there is a cross. A comparison with a moving average that does not
  exist (NaN) is false.
\<close>

definition cross_at :: "fl list \<Rightarrow> fl list \<Rightarrow> nat \<Rightarrow> bool" where
  "cross_at short_ma long_ma t \<longleftrightarrow>
     0 < t \<and> fl_gt (short_ma ! t) (long_ma ! t)
     \<and> fl_le (short_ma ! (t - 1)) (long_ma ! (t - 1))"

definition cross_times ::
  "(nat \<Rightarrow> fl list \<Rightarrow> fl list) \<Rightarrow> nat \<Rightarrow> nat \<Rightarrow> 'd frame \<Rightarrow> nat set" where
  "cross_times rolling short_window long_window rows =
     {t. t < length rows
         \<and> cross_at (rolling short_window (map (\<lambda>b. Fin (Close b)) rows))
                     (rolling long_window (map (\<lambda>b. Fin (Close b)) rows)) t}"

subsection \<open>Relative strength index\<close>

text \<open>
  \<open>calculate_rsi\<close> of stock_dashboard.py; the result is the whole series. It is stated
  on the exact operations: the property below is about windows in which every loss, or
  every gain, is 0, and there the mean 0, the infinite or zero ratio and the values 100
  and 0 are the same on doubles.
\<close>

definition calculate_rsi :: "'d frame \<Rightarrow> nat \<Rightarrow> fl list" where
  "calculate_rsi data window =
     (let delta = series_diff (map (\<lambda>b. Fin (Close b)) data);
          gain = rolling_mean window (series_where delta (\<lambda>d. fl_gt d (Fin 0)) (Fin 0));
          loss = rolling_mean window
                   (map fl_neg (series_where delta (\<lambda>d. fl_less d (Fin 0)) (Fin 0)));
          rs = map2 fl_div gain loss;
          rsi = map (\<lambda>x. fl_sub (Fin 100) (fl_div (Fin 100) (fl_add (Fin 1) x))) rs
      in rsi)"

text \<open>
  The specification's reading of the windowed moves: the up-move and the down-move of
  session \<open>i\<close> are \<open>max(delta, 0)\<close> and \<open>max(-delta, 0)\<close>, and 0 at the first session,
  which has no delta.
\<close>

definition up_move :: "real list \<Rightarrow> nat \<Rightarrow> real" where
  "up_move closes i = (if 0 < i \<and> closes ! (i - 1) < closes ! i then closes ! i - closes ! (i - 1) else 0)"

definition down_move :: "real list \<Rightarrow> nat \<Rightarrow> real" where
  "down_move closes i = (if 0 < i \<and> closes ! i < closes ! (i - 1) then closes ! (i - 1) - closes ! i else 0)"

subsection \<open>Fibonacci retracement\<close>

text \<open>
  \<open>calculate_fibonacci_levels\<close> of stock_dashboard.py, on doubles. The dictionary it
  returns keeps the order in which the levels are written, so it is a list of pairs.
\<close>

definition calculate_fibonacci_levels :: "'d frame \<Rightarrow> (string \<times> fl) list" where
  "calculate_fibonacci_levels data =
     (let max_price = series_max (map (\<lambda>b. Fin (High b)) data);
          min_price = series_min (map (\<lambda>b. Fin (Low b)) data);
          diff = d_sub max_price min_price
      in [(''0% (High)'', max_price),
          (''23.6%'', d_sub max_price (d_mul (rd_double (236 / 1000)) diff)),
          (''38.2%'', d_sub max_price (d_mul (rd_double (382 / 1000)) diff)),
          (''50%'', d_sub max_price (d_mul (rd_double (5 / 10)) diff)),
          (''61.8%'', d_sub max_price (d_mul (rd_double (618 / 1000)) diff)),
          (''100% (Low)'', min_price)])"

text \<open>
  Python's \<open>min(iterable, key=f)\<close>: the first item is the candidate, and a later item
  replaces it only when its key is smaller. It raises \<open>ValueError\<close> on no item.
\<close>

definition py_min :: "('a \<Rightarrow> fl) \<Rightarrow> 'a list \<Rightarrow> pyexn + 'a" where
  "py_min key xs =
     (case xs of
        [] \<Rightarrow> Inl ValueError
      | x # rest \<Rightarrow> Inr (fold (\<lambda>y best. if fl_less (key y) (key best) then y else best) rest x))"

text \<open>
  \<open>closest_level\<close> of the dashboard:
  \<^verbatim>\<open>min(fib_levels.items(), key=lambda x: abs(x[1] - current_price))\<close>.
\<close>

definition closest_level :: "(string \<times> fl) list \<Rightarrow> real \<Rightarrow> pyexn + (string \<times> fl)" where
  "closest_level fib_levels current_price =
     py_min (\<lambda>x. fl_abs (d_sub (snd x) (Fin current_price))) fib_levels"

text \<open>
  The specification's reading: the labels of the levels in the order of their
  definition; the level \<open>high - ratio * (high - low)\<close> as the source evaluates it on
  doubles; and the distance \<open>abs(level - current_price)\<close> of the level at position
  \<open>j\<close>, as the source evaluates it.
\<close>

definition fib_labels :: "string list" where
  "fib_labels = [''0% (High)'', ''23.6%'', ''38.2%'', ''50%'', ''61.8%'', ''100% (Low)'']"

definition double_level :: "real \<Rightarrow> real \<Rightarrow> real \<Rightarrow> fl" where
  "double_level high low ratio =
     d_sub (Fin high) (d_mul (rd_double ratio) (d_sub (Fin high) (Fin low)))"

definition level_distance :: "'d frame \<Rightarrow> real \<Rightarrow> nat \<Rightarrow> fl" where
  "level_distance data current_price j =
     fl_abs (d_sub (snd (calculate_fibonacci_levels data ! j)) (Fin current_price))"


section \<open>Scanner\<close>

text \<open>
  What the provider answers to the scanner for one ticker: \<open>stock.info\<close>,
  \<open>stock.history(period="2y")\<close> and \<open>stock.history(period="1mo", interval="1h")\<close>.
  Each call may raise.
\<close>

record 'd feed =
  feed_info :: "pyexn + (string \<rightharpoonup> real option)"
  history_2y :: "pyexn + 'd frame"
  history_1mo_1h :: "pyexn + 'd frame"

text \<open>
  A cell of the result table that holds the market capitalisation: a number, Python's
  \<open>None\<close>, or the default text. A date cell is the date, or \<open>None\<close> for the text "N/A"
  (the formatting of a date into text is not modelled).
\<close>

datatype cell = Number real | NoneValue | Text string

record 'd row =
  Ticker :: string
  Name :: string
  Market_Cap :: cell
  Daily_Golden_Cross_Date :: "'d option"
  Status :: string
  Hourly_Golden_Cross_Date :: "'d option"

text \<open>The body of the \<open>try\<close> block of \<open>process_ticker\<close>: it returns the row or raises.\<close>

definition process_ticker_try ::
  "(nat \<Rightarrow> fl list \<Rightarrow> fl list) \<Rightarrow> (string \<Rightarrow> 'd feed) \<Rightarrow> string \<Rightarrow> (string \<rightharpoonup> string)
     \<Rightarrow> pyexn + 'd row" where
  "process_ticker_try rolling provider ticker security_names =
     (let stock = provider ticker in
      case feed_info stock of
        Inl e \<Rightarrow> Inl e
      | Inr stock_info \<Rightarrow>
          let market_cap = (case stock_info ''marketCap'' of
                              None \<Rightarrow> Text ''N/A''
                            | Some None \<Rightarrow> NoneValue
                            | Some (Some v) \<Rightarrow> Number v)
          in
          (case history_2y stock of
             Inl e \<Rightarrow> Inl e
           | Inr hist_daily \<Rightarrow>
               let (cross_date, is_bullish) =
                     calculate_golden_cross rolling (Some hist_daily) 50 200;
                   status = (if is_bullish = Some True then ''Bullish'' else ''Bearish'')
               in
               if is_bullish = Some True then
                 (case history_1mo_1h stock of
                    Inl e \<Rightarrow> Inl e
                  | Inr hist_hourly \<Rightarrow>
                      let (h_cross_date, _) =
                            calculate_golden_cross rolling (Some hist_hourly) 50 200
                      in Inr \<lparr>Ticker = ticker,
                              Name = dict_get security_names ticker ticker,
                              Market_Cap = market_cap,
                              Daily_Golden_Cross_Date = cross_date,
                              Status = status,
                              Hourly_Golden_Cross_Date = h_cross_date\<rparr>)
               else
                 Inr \<lparr>Ticker = ticker,
                      Name = dict_get security_names ticker ticker,
                      Market_Cap = market_cap,
                      Daily_Golden_Cross_Date = cross_date,
                      Status = status,
                      Hourly_Golden_Cross_Date = None\<rparr>))"

text \<open>
  \<open>process_ticker\<close>: the handler of \<open>except Exception\<close> prints the error and returns
  \<open>None\<close>.
\<close>

definition process_ticker ::
  "(nat \<Rightarrow> fl list \<Rightarrow> fl list) \<Rightarrow> (string \<Rightarrow> 'd feed) \<Rightarrow> string \<Rightarrow> (string \<rightharpoonup> string)
     \<Rightarrow> 'd row option" where
  "process_ticker rolling provider ticker security_names =
     (case process_ticker_try rolling provider ticker security_names of
        Inl e \<Rightarrow> None
      | Inr r \<Rightarrow> Some r)"

text \<open>
  The scan of \<open>main\<close>, for the tickers and names that \<open>get_sp500_tickers_with_info\<close>
  returned: with no ticker it returns at once and builds no table; otherwise one task per
  ticker is submitted to the pool and the results are read in the order of submission.
  A row is a non-empty dictionary, so \<open>if res\<close> only drops \<open>None\<close>. The value is the list
  \<open>results\<close> from which the table is built; the sort by market capitalisation that
  follows reorders the rows of the table and is not modelled.
\<close>

definition main ::
  "(nat \<Rightarrow> fl list \<Rightarrow> fl list) \<Rightarrow> (string \<Rightarrow> 'd feed) \<Rightarrow> string list \<Rightarrow> (string \<rightharpoonup> string)
     \<Rightarrow> 'd row list option" where
  "main rolling provider tickers security_names =
     (if tickers = [] then None
      else Some (List.map_filter
                   (\<lambda>ticker. process_ticker rolling provider ticker security_names) tickers))"

text \<open>A ticker succeeds when the body of \<open>process_ticker\<close> returns a row.\<close>

definition succeeds ::
  "(nat \<Rightarrow> fl list \<Rightarrow> fl list) \<Rightarrow> (string \<Rightarrow> 'd feed) \<Rightarrow> (string \<rightharpoonup> string) \<Rightarrow> string \<Rightarrow> bool" where
  "succeeds rolling provider security_names ticker
     \<longleftrightarrow> \<not> isl (process_ticker_try rolling provider ticker security_names)"


section \<open>Example inputs\<close>

text \<open>Concrete provider answers and price histories on which the theorems are instantiated.\<close>

definition example_stock :: stock where
  "example_stock =
     \<lparr>cashflow = Inr [''Free Cash Flow'' \<mapsto> 100],
      info = Inr [''totalCash'' \<mapsto> Some 10, ''totalDebt'' \<mapsto> Some 20,
                  ''sharesOutstanding'' \<mapsto> Some 4],
      dividends = Inr [1, 2]\<rparr>"



definition no_shares_stock :: stock where
  "no_shares_stock =
     \<lparr>cashflow = Inr [''Free Cash Flow'' \<mapsto> 100],
      info = Inr [''totalCash'' \<mapsto> Some 10, ''totalDebt'' \<mapsto> Some 20],
      dividends = Inr []\<rparr>"


definition example_rows :: "nat frame" where
  "example_rows =
     [\<lparr>Date = 10, High = 1, Low = 1, Close = 1\<rparr>,
      \<lparr>Date = 11, High = 1, Low = 1, Close = 1\<rparr>,
      \<lparr>Date = 12, High = 3, Low = 1, Close = 3\<rparr>]"

text \<open>
  Four sessions whose closes are the doubles nearest to 0.2875, 0.4125, 0.35 and 1: the
  exact mean of the first three is the third close.
\<close>

definition tie_rows :: "nat frame" where
  "tie_rows =
     [\<lparr>Date = 1, High = 1, Low = 0, Close = 2589569785738035 / 9007199254740992\<rparr>,
      \<lparr>Date = 2, High = 1, Low = 0, Close = 3715469692580659 / 9007199254740992\<rparr>,
      \<lparr>Date = 3, High = 1, Low = 0, Close = 3152519739159347 / 9007199254740992\<rparr>,
      \<lparr>Date = 4, High = 1, Low = 0, Close = 1\<rparr>]"

definition rising_rows :: "nat frame" where
  "rising_rows =
     [\<lparr>Date = 1, High = 1, Low = 1, Close = 1\<rparr>,
      \<lparr>Date = 2, High = 2, Low = 2, Close = 2\<rparr>,
      \<lparr>Date = 3, High = 4, Low = 4, Close = 4\<rparr>]"

definition falling_rows :: "nat frame" where
  "falling_rows =
     [\<lparr>Date = 1, High = 4, Low = 4, Close = 4\<rparr>,
      \<lparr>Date = 2, High = 2, Low = 2, Close = 2\<rparr>,
      \<lparr>Date = 3, High = 1, Low = 1, Close = 1\<rparr>]"

definition fib_rows :: "nat frame" where
  "fib_rows =
     [\<lparr>Date = 1, High = 100, Low = 50, Close = 60\<rparr>,
      \<lparr>Date = 2, High = 80, Low = 0, Close = 51\<rparr>]"

definition example_provider :: "string \<Rightarrow> nat feed" where
  "example_provider ticker =
     (if ticker = ''BAD'' then
        \<lparr>feed_info = Inr Map.empty, history_2y = Inl ProviderFailure, history_1mo_1h = Inr []\<rparr>
      else
        \<lparr>feed_info = Inr [''marketCap'' \<mapsto> Some 5], history_2y = Inr [],
         history_1mo_1h = Inr []\<rparr>)"


section \<open>Properties of the valuation engine\<close>

subsection \<open>The projection loop and the closed form\<close>

lemma py_range_1: "py_range 1 (y + 1) = map (\<lambda>k. 1 + int k) [0..<nat y]"
  by (simp add: py_range_def)

lemma closed_projection_Suc:
  "closed_projection fcf g (Suc m) = closed_projection fcf g m @ [fcf * (1 + g) ^ (m + 1)]"
  by (simp add: closed_projection_def)

lemma closed_projection_Nil_iff: "closed_projection fcf g n = [] \<longleftrightarrow> n = 0"
  by (simp add: closed_projection_def)

lemma last_closed_projection:
  "0 < n \<Longrightarrow> last (closed_projection fcf g n) = fcf * (1 + g) ^ n"
  by (cases n) (simp_all add: closed_projection_Suc)

lemma project_loop_gen:
  "m \<le> n \<Longrightarrow>
   project_loop fcf g (map (\<lambda>k. 1 + int k) [m..<n]) (closed_projection fcf g m)
     = Inr (closed_projection fcf g n)"
proof (induction "n - m" arbitrary: m)
  case 0
  then show ?case by simp
next
  case (Suc d)
  then have lt: "m < n" and d: "d = n - Suc m" and le: "Suc m \<le> n" by simp_all
  have step: "[m..<n] = m # [Suc m..<n]" using lt by (simp add: upt_conv_Cons)
  have ih: "project_loop fcf g (map (\<lambda>k. 1 + int k) [Suc m..<n])
              (closed_projection fcf g m @ [fcf * (1 + g) ^ (m + 1)])
            = Inr (closed_projection fcf g n)"
    using Suc.hyps(1)[OF d le] by (simp only: closed_projection_Suc)
  show ?case
  proof (cases "m = 0")
    case True
    then show ?thesis using ih step by (simp add: closed_projection_def)
  next
    case False
    then have l: "last (closed_projection fcf g m) = fcf * (1 + g) ^ m"
      by (simp add: last_closed_projection)
    show ?thesis using ih step False
      by (simp add: closed_projection_Nil_iff l mult_ac)
  qed
qed

lemma project_loop_closed:
  "project_loop fcf g (py_range 1 (y + 1)) [] = Inr (closed_projection fcf g (nat y))"
  using project_loop_gen [of 0 "nat y" fcf g] by (simp add: py_range_1 closed_projection_def)

lemma sum_list_enumerate_map:
  "sum_list (map (\<lambda>(i, fcf). fcf / d ^ (i + 1)) (enumerate 0 (map F [0..<n])))
     = (\<Sum>i<n. F i / (d::real) ^ (i + 1))"
proof -
  have "enumerate 0 (map F [0..<n]) = map (\<lambda>i. (i, F i)) [0..<n]"
    by (simp add: enumerate_eq_zip zip_map2 zip_same_conv_map)
  then have "sum_list (map (\<lambda>(i, fcf). fcf / d ^ (i + 1)) (enumerate 0 (map F [0..<n])))
     = sum_list (map (\<lambda>i. F i / d ^ (i + 1)) [0..<n])"
    by (simp add: comp_def)
  also have "\<dots> = (\<Sum>i<n. F i / d ^ (i + 1))"
    by (simp add: interv_sum_list_conv_sum_set_nat atLeast0LessThan)
  finally show ?thesis .
qed


lemma sum_discounted_closed_projection:
  "sum_list (discounted_fcf (closed_projection fcf g n) r)
     = (\<Sum>i<n. (fcf * (1 + g) ^ (i + 1)) / (1 + r) ^ (i + 1))"
  unfolding discounted_fcf_def closed_projection_def by (rule sum_list_enumerate_map)

lemma future_fcf_eq: "future_fcf fcf g = closed_projection fcf g 5"
  unfolding future_fcf_def closed_projection_def by (simp add: upt_rec numeral_eq_Suc)


lemma enterprise_value_closed:
  "enterprise_value (future_fcf fcf g) r tg = closed_form_ev fcf 5 g r tg"
  unfolding future_fcf_eq enterprise_value_def closed_form_ev_def Let_def
    sum_discounted_closed_projection terminal_value_def
  by (simp only: last_closed_projection zero_less_numeral)

subsection \<open>The value returned on well-formed inputs\<close>

lemma get_free_cash_flow_dashboard_eq:
  "get_free_cash_flow_dashboard s = get_free_cash_flow s"
  by (auto simp: get_free_cash_flow_dashboard_def get_free_cash_flow_def
      split: sum.splits option.splits)


lemma perform_dcf_analysis_result:
  assumes "get_free_cash_flow s = Some fcf" and "tg < r"
    and "info s = Inr stock_info"
    and "dict_get stock_info ''totalCash'' (Some 0) = Some cash"
    and "dict_get stock_info ''totalDebt'' (Some 0) = Some debt"
    and "dict_get stock_info ''sharesOutstanding'' (Some 1) = Some shares" and "shares \<noteq> 0"
  shows "perform_dcf_analysis s g r tg
           = Inr ((closed_form_ev fcf 5 g r tg - debt + cash) / shares,
                  future_fcf fcf g,
                  terminal_value (fcf * (1 + g) ^ 5) r tg)"
proof -
  have "last (future_fcf fcf g) = fcf * (1 + g) ^ 5"
    unfolding future_fcf_eq by (simp add: last_closed_projection)
  then show ?thesis
    unfolding perform_dcf_analysis_def
    using assms
    by (simp add: get_free_cash_flow_dashboard_eq enterprise_value_closed Let_def)
qed

lemma example_fcf: "get_free_cash_flow example_stock = Some 100"
  by (simp add: get_free_cash_flow_def example_stock_def)




lemma closed_form_ev_example_5: "closed_form_ev 100 5 (1/10) (1/10) 0 = 1500"
  by (simp add: closed_form_ev_def numeral_eq_Suc)







lemma comprehension_eq_closed_projection:
  "map (\<lambda>i. fcf * (1 + g) ^ i) [1..<n + 1] = closed_projection fcf g n"
proof -
  have "[1..<n + 1] = map Suc [0..<n]"
    by (simp add: map_Suc_upt)
  then show ?thesis
    by (simp add: closed_projection_def comp_def)
qed

text \<open>
  C10. For every current free cash flow, growth rate and horizon, the script's iterative
  projection (each year's flow is the previous one times \<open>1 + g\<close>) yields the sequence
  of the dashboard's comprehension \<open>current_fcf * (1 + g) ^ i\<close> for \<open>i = 1, \<dots>, years\<close>;
  at the dashboard's horizon of five years the two projections are the same list, and
  on it the script's and the dashboard's enterprise values are equal.
\<close>

theorem iterative_projection_eq_comprehension:
  "project_loop current_fcf g (py_range 1 (years + 1)) []
     = Inr (map (\<lambda>i. current_fcf * (1 + g) ^ i) [1..<nat years + 1])
   \<and> project_loop current_fcf g (py_range 1 (5 + 1)) [] = Inr (future_fcf current_fcf g)
   \<and> total_enterprise_value (future_fcf current_fcf g) 5 r tg
       = enterprise_value (future_fcf current_fcf g) r tg"
proof -
  have a: "project_loop current_fcf g (py_range 1 (years + 1)) []
     = Inr (map (\<lambda>i. current_fcf * (1 + g) ^ i) [1..<nat years + 1])"
    by (simp only: project_loop_closed comprehension_eq_closed_projection)
  have "project_loop current_fcf g (py_range 1 (5 + 1)) []
          = Inr (closed_projection current_fcf g (nat 5))"
    by (rule project_loop_closed)
  then have b: "project_loop current_fcf g (py_range 1 (5 + 1)) [] = Inr (future_fcf current_fcf g)"
    by (simp add: future_fcf_eq)
  have c: "total_enterprise_value (future_fcf current_fcf g) 5 r tg
       = enterprise_value (future_fcf current_fcf g) r tg"
    by (simp add: total_enterprise_value_def enterprise_value_def pv_fcf_def discounted_fcf_def)
  from a b c show ?thesis by simp
qed







subsection \<open>Missing share count\<close>

lemma calculate_dcf_value_no_share_count:
  assumes "info s = Inr stock_info"
    and "stock_info ''sharesOutstanding'' = None
         \<or> stock_info ''sharesOutstanding'' = Some None
         \<or> stock_info ''sharesOutstanding'' = Some (Some 0)"
  shows "snd (calculate_dcf_value s y g gl r tg) \<noteq> Inr v"
  using assms unfolding calculate_dcf_value_def
  by (auto simp: Let_def dict_get_def split: option.splits sum.splits)

lemma calculate_dcf_value_missing_share_count:
  assumes "get_free_cash_flow s = Some fcf" and "1 \<le> y" and "tg < r"
    and "info s = Inr stock_info"
    and "stock_info ''sharesOutstanding'' = None
         \<or> stock_info ''sharesOutstanding'' = Some None
         \<or> stock_info ''sharesOutstanding'' = Some (Some 0)"
  shows "snd (calculate_dcf_value s y g gl r tg) = Inl MissingShareCount"
proof -
  have ne: "closed_projection fcf g (nat y) \<noteq> []"
    using assms(2) by (simp add: closed_projection_Nil_iff)
  have "dict_get stock_info ''sharesOutstanding'' None = None
        \<or> dict_get stock_info ''sharesOutstanding'' None = Some 0"
    using assms(5) by (auto simp: dict_get_def)
  then show ?thesis
    unfolding calculate_dcf_value_def
    using assms(1,3,4) ne
    by (auto simp: project_loop_closed Let_def)
qed

lemma perform_dcf_analysis_zero_shares:
  assumes "info s = Inr stock_info" and "stock_info ''sharesOutstanding'' = Some (Some 0)"
  shows "perform_dcf_analysis s g r tg \<noteq> Inr v"
  using assms unfolding perform_dcf_analysis_def
  by (auto simp: Let_def dict_get_def split: option.splits sum.splits)

text \<open>
  C6. The script returns no value when the share count is absent, \<open>None\<close> or zero (the
  lemmas above). The dashboard does not: when the provider's answer has no
  \<open>sharesOutstanding\<close> entry it divides the equity value by the default 1 and returns
  that as the value per share, where the script on the same answer fails with the
  missing share count.
\<close>

theorem dashboard_dcf_absent_share_count:
  "info no_shares_stock = Inr [''totalCash'' \<mapsto> Some 10, ''totalDebt'' \<mapsto> Some 20]
   \<and> perform_dcf_analysis no_shares_stock (1/10) (1/10) 0
       = Inr (1490, closed_projection 100 (1/10) 5, 161051 / 100)
   \<and> snd (calculate_dcf_value no_shares_stock 5 (1/10) (3/100) (1/10) 0) = Inl MissingShareCount"
proof -
  let ?i = "[''totalCash'' \<mapsto> Some 10, ''totalDebt'' \<mapsto> Some (20::real)]"
  have f: "get_free_cash_flow no_shares_stock = Some 100"
    by (simp add: get_free_cash_flow_def no_shares_stock_def)
  have i: "info no_shares_stock = Inr ?i"
    by (simp add: no_shares_stock_def)
  have v: "dict_get ?i ''totalCash'' (Some 0) = Some 10"
    "dict_get ?i ''totalDebt'' (Some 0) = Some 20"
    "dict_get ?i ''sharesOutstanding'' (Some 1) = Some 1"
    "?i ''sharesOutstanding'' = None"
    by (simp_all add: dict_get_def)
  have h: "(0::real) < 1/10" "(1::real) \<noteq> 0" "(1::int) \<le> 5" by simp_all
  have a: "perform_dcf_analysis no_shares_stock (1/10) (1/10) 0
       = Inr (1490, closed_projection 100 (1/10) 5, 161051 / 100)"
    using perform_dcf_analysis_result [OF f h(1) i v(1) v(2) v(3) h(2), of "1/10"]
    by (simp add: closed_form_ev_example_5 future_fcf_eq terminal_value_def power_divide)
  have b: "snd (calculate_dcf_value no_shares_stock 5 (1/10) (3/100) (1/10) 0)
             = Inl MissingShareCount"
    by (rule calculate_dcf_value_missing_share_count [OF f h(3) h(1) i]) (simp add: v(4))
  from a b i show ?thesis by simp
qed

subsection \<open>Rates that violate the precondition\<close>

lemma calculate_dcf_value_invalid_rates:
  assumes "r \<le> tg" and "get_free_cash_flow s = Some fcf" and "1 \<le> y"
  shows "calculate_dcf_value s y g gl r tg
           = ([Print_assumptions fcf y g r tg,
               Print_projected (closed_projection fcf g (nat y)),
               Print_pv_explicit (sum_list (pv_fcf (closed_projection fcf g (nat y)) r)),
               Print_error InvalidAssumption],
              Inl InvalidAssumption)"
proof -
  have ne: "closed_projection fcf g (nat y) \<noteq> []"
    using assms(3) by (simp add: closed_projection_Nil_iff)
  show ?thesis
    unfolding calculate_dcf_value_def
    using assms(1,2) ne
    by (simp add: project_loop_closed Let_def)
qed

lemma calculate_dcf_value_invalid_rates_no_value:
  assumes "r \<le> tg"
  shows "snd (calculate_dcf_value s y g gl r tg) \<noteq> Inr v"
  using assms unfolding calculate_dcf_value_def
  by (auto simp: Let_def split: option.splits sum.splits)

text \<open>
  C9 (amended). When the discount rate does not exceed the terminal growth rate, neither
  function returns a value. The dashboard fails with the invalid-assumption error before
  it reads or computes anything. The script fails with the missing-data error when the
  free cash flow is unknown; when it is known and the horizon is at least one year, the
  script first projects the flows and prints them and their total present value, and
  then fails with the invalid-assumption error, before any terminal value, enterprise
  value or value per share is computed.
\<close>

theorem invalid_rates_give_no_value:
  assumes "discount_rate \<le> terminal_growth_rate"
  shows "perform_dcf_analysis s g discount_rate terminal_growth_rate = Inl InvalidAssumption
    \<and> (\<forall>v. snd (calculate_dcf_value s years g g_long discount_rate terminal_growth_rate) \<noteq> Inr v)
    \<and> (get_free_cash_flow s = None \<longrightarrow>
         calculate_dcf_value s years g g_long discount_rate terminal_growth_rate
           = ([Print_error MissingFinancialData], Inl MissingFinancialData))
    \<and> (\<forall>fcf. get_free_cash_flow s = Some fcf \<and> 1 \<le> years \<longrightarrow>
         calculate_dcf_value s years g g_long discount_rate terminal_growth_rate
           = ([Print_assumptions fcf years g discount_rate terminal_growth_rate,
               Print_projected (closed_projection fcf g (nat years)),
               Print_pv_explicit
                 (sum_list (pv_fcf (closed_projection fcf g (nat years)) discount_rate)),
               Print_error InvalidAssumption],
              Inl InvalidAssumption))"
proof -
  have a: "perform_dcf_analysis s g discount_rate terminal_growth_rate = Inl InvalidAssumption"
    using assms by (simp add: perform_dcf_analysis_def)
  have b: "\<forall>v. snd (calculate_dcf_value s years g g_long discount_rate terminal_growth_rate) \<noteq> Inr v"
    using calculate_dcf_value_invalid_rates_no_value [OF assms] by blast
  have c: "get_free_cash_flow s = None \<longrightarrow>
         calculate_dcf_value s years g g_long discount_rate terminal_growth_rate
           = ([Print_error MissingFinancialData], Inl MissingFinancialData)"
    by (simp add: calculate_dcf_value_def)
  from a b c calculate_dcf_value_invalid_rates [OF assms] show ?thesis by blast
qed

theorem invalid_rates_give_no_value_witness:
  "(1/20::real) \<le> 1/10
   \<and> perform_dcf_analysis example_stock (1/10) (1/20) (1/10) = Inl InvalidAssumption
   \<and> calculate_dcf_value example_stock 1 (1/10) (3/100) (1/20) (1/10)
       = ([Print_assumptions 100 1 (1/10) (1/20) (1/10),
           Print_projected [110],
           Print_pv_explicit (2200 / 21),
           Print_error InvalidAssumption],
          Inl InvalidAssumption)"
proof -
  have h: "(1/20::real) \<le> 1/10" by simp
  show ?thesis
    using invalid_rates_give_no_value [OF h, of example_stock "1/10" 1 "3/100"] example_fcf
    by (simp add: closed_projection_def pv_fcf_def)
qed

text \<open>
  The claim as stated fails on the script: with a discount rate of 5 percent and a
  terminal growth rate of 10 percent it has projected and printed the flow 110 and its
  present value before it reports the error.
\<close>

theorem script_projects_before_rate_check_counterexample:
  "calculate_dcf_value example_stock 1 (1/10) (3/100) (1/20) (1/10)
     = ([Print_assumptions 100 1 (1/10) (1/20) (1/10),
         Print_projected [110],
         Print_pv_explicit (2200 / 21),
         Print_error InvalidAssumption],
        Inl InvalidAssumption)"
  by (simp add: calculate_dcf_value_def example_fcf py_range_def pv_fcf_def Let_def)

subsection \<open>Dividend discount model\<close>





section \<open>Properties of the technical signals\<close>

subsection \<open>Rounding\<close>

text \<open>Evaluating the rounding on numerals.\<close>

lemma exponent_up_numeral:
  "exponent_up (numeral k) a e
     = (if 2 powi (e + 1) \<le> a then exponent_up (pred_numeral k) a (e + 1) else e)"
  by (simp add: numeral_eq_Suc)

lemma exponent_down_numeral:
  "exponent_down (numeral k) a e
     = (if a < 2 powi e then exponent_down (pred_numeral k) a (e - 1) else e)"
  by (simp add: numeral_eq_Suc)

lemmas rd_double_eval =
  rd_double_def binary_exponent_def exponent_up_numeral exponent_down_numeral
  round_half_even_def Let_def inf_of_sign_def

lemma literal_doubles:
  "rd_double (236 / 1000) = Fin (1062849512059437 / 4503599627370496)"
  "rd_double (382 / 1000) = Fin (3440750115311059 / 9007199254740992)"
  "rd_double (5 / 10) = Fin (1 / 2)"
  "rd_double (618 / 1000) = Fin (5566449139429933 / 9007199254740992)"
  by (simp_all add: rd_double_eval)

lemma rd_double_not_NaN [simp]: "rd_double x \<noteq> NaN"
  by (simp add: rd_double_def Let_def inf_of_sign_def)


subsection \<open>Rolling means\<close>

lemma length_rolling_mean [simp]: "length (rolling_mean w xs) = length xs"
  by (simp add: rolling_mean_def)

lemma length_shift1 [simp]: "length (shift1 xs) = length xs"
  by (simp add: shift1_def)

lemma shift1_nth: "i < length xs \<Longrightarrow> shift1 xs ! i = (if i = 0 then NaN else xs ! (i - 1))"
  by (simp add: shift1_def)

lemma sum_list_window:
  fixes xs :: "real list"
  assumes "j + w \<le> length xs"
  shows "sum_list (take w (drop j xs)) = (\<Sum>m<w. xs ! (j + m))"
proof -
  have "sum_list (take w (drop j xs)) = (\<Sum>m = 0..<w. take w (drop j xs) ! m)"
    using assms by (simp add: sum_list_sum_nth)
  also have "\<dots> = (\<Sum>m = 0..<w. xs ! (j + m))"
    using assms by (intro sum.cong) simp_all
  finally show ?thesis by (simp add: atLeast0LessThan)
qed

lemma window_sum_backwards:
  fixes xs :: "real list"
  assumes "w \<le> i + 1" and "i < length xs"
  shows "sum_list (take w (drop (i + 1 - w) xs)) = (\<Sum>k<w. xs ! (i - k))"
proof -
  have "sum_list (take w (drop (i + 1 - w) xs)) = (\<Sum>m<w. xs ! (i + 1 - w + m))"
    using assms by (intro sum_list_window) simp
  also have "\<dots> = (\<Sum>k<w. xs ! (i + 1 - w + (w - Suc k)))"
    by (rule sum.nat_diff_reindex [symmetric])
  also have "\<dots> = (\<Sum>k<w. xs ! (i - k))"
    using assms by (intro sum.cong) simp_all
  finally show ?thesis .
qed

lemma window_of_Fin:
  "list_all is_fin (take w (drop j (map Fin xs)))"
  "map fin_val (take w (drop j (map Fin xs))) = take w (drop j xs)"
  by (simp_all add: list_all_iff take_map drop_map comp_def)

lemma rolling_mean_Fin_nth:
  assumes "i < length xs"
  shows "rolling_mean w (map Fin xs) ! i
           = (if w = 0 \<or> i + 1 < w then NaN else Fin (moving_average w xs i))"
proof (cases "w = 0 \<or> i + 1 < w")
  case True
  then show ?thesis using assms by (auto simp: rolling_mean_def)
next
  case False
  then have w: "w \<le> i + 1" by simp
  have "sum_list (take w (drop (i + 1 - w) xs)) = (\<Sum>k<w. xs ! (i - k))"
    by (rule window_sum_backwards [OF w assms])
  then have "sum_list (take w (drop (Suc i - w) xs)) = (\<Sum>k<w. xs ! (i - k))"
    by simp
  then show ?thesis
    using assms False
    by (simp add: rolling_mean_def Let_def window_of_Fin moving_average_def)
qed

subsection \<open>Golden cross\<close>

lemma fl_le_NaN [simp]: "\<not> fl_le NaN b"
  by (simp add: fl_le_def)

lemma mask_iff:
  assumes "length short_ma = n" and "length long_ma = n" and "t < n"
  shows "(fl_gt (short_ma ! t) (long_ma ! t) \<and> fl_le (shift1 short_ma ! t) (shift1 long_ma ! t))
         \<longleftrightarrow> cross_at short_ma long_ma t"
  using assms by (cases "t = 0") (simp_all add: shift1_nth cross_at_def)

lemma last_filter_upt:
  assumes "\<exists>t<n. P t"
  shows "filter P [0..<n] \<noteq> [] \<and> last (filter P [0..<n]) = Max {t. t < n \<and> P t}"
  using assms
proof (induction n)
  case 0
  then show ?case by simp
next
  case (Suc n)
  have fin: "finite {t. t < n \<and> P t}" by simp
  show ?case
  proof (cases "P n")
    case True
    have "Max {t. t < Suc n \<and> P t} = n"
      using True by (intro Max_eqI) auto
    then show ?thesis using True by simp
  next
    case False
    then have eq: "{t. t < Suc n \<and> P t} = {t. t < n \<and> P t}"
      by (auto simp: less_Suc_eq)
    from False Suc.prems have "\<exists>t<n. P t" by (auto simp: less_Suc_eq)
    then show ?thesis using Suc.IH False eq by simp
  qed
qed

lemma filter_upt_Nil_iff: "filter P [0..<n] = [] \<longleftrightarrow> (\<forall>t<n. \<not> P t)"
  by (auto simp: filter_empty_conv)

lemma golden_cross_date:
  assumes len: "\<forall>w xs. length (rolling w xs) = length xs" and "lw \<le> length rows"
  shows "fst (calculate_golden_cross rolling (Some rows) sw lw)
           = (if cross_times rolling sw lw rows = {} then None
              else Some (Date (rows ! Max (cross_times rolling sw lw rows))))"
proof -
  let ?n = "length rows"
  let ?closes = "map (\<lambda>b. Fin (Close b)) rows"
  let ?sma50 = "rolling sw ?closes"
  let ?sma200 = "rolling lw ?closes"
  let ?mask = "map (\<lambda>i. fl_gt (?sma50 ! i) (?sma200 ! i)
                          \<and> fl_le (shift1 ?sma50 ! i) (shift1 ?sma200 ! i)) [0..<?n]"
  let ?P = "cross_at ?sma50 ?sma200"
  have l50: "length ?sma50 = ?n" and l200: "length ?sma200 = ?n"
    using len by simp_all
  have "filter (\<lambda>i. ?mask ! i) [0..<?n] = filter ?P [0..<?n]"
  proof (rule filter_cong [OF refl])
    fix t assume "t \<in> set [0..<?n]"
    then have t: "t < ?n" by simp
    then show "?mask ! t = ?P t"
      using mask_iff [OF l50 l200 t] by simp
  qed
  then have fst_eq: "fst (calculate_golden_cross rolling (Some rows) sw lw)
      = (if filter ?P [0..<?n] \<noteq> []
         then Some (Date (rows ! last (filter ?P [0..<?n]))) else None)"
    using assms(2)
    by (simp add: calculate_golden_cross_def Let_def last_map)
  have ct: "cross_times rolling sw lw rows = {t. t < ?n \<and> ?P t}"
    by (simp add: cross_times_def)
  show ?thesis
  proof (cases "\<exists>t<?n. ?P t")
    case True
    then have ne: "cross_times rolling sw lw rows \<noteq> {}" unfolding ct by blast
    from last_filter_upt [of ?n ?P, OF True]
    show ?thesis using ne by (simp add: fst_eq ct)
  next
    case False
    then have e: "cross_times rolling sw lw rows = {}" unfolding ct by blast
    from False have "filter ?P [0..<?n] = []" by (simp add: filter_upt_Nil_iff)
    then show ?thesis using e by (simp add: fst_eq)
  qed
qed

text \<open>
  With the mean of exact arithmetic, a cross at \<open>t\<close> compares the moving averages of the
  closes; both exist at \<open>t\<close> and at \<open>t - 1\<close> from \<open>t = max short_window long_window\<close> on.
\<close>

lemma cross_at_exact_mean:
  assumes "0 < sw" and "0 < lw" and "t < length xs"
  shows "cross_at (rolling_mean sw (map Fin xs)) (rolling_mean lw (map Fin xs)) t
         \<longleftrightarrow> max sw lw \<le> t
             \<and> moving_average lw xs t < moving_average sw xs t
             \<and> moving_average sw xs (t - 1) \<le> moving_average lw xs (t - 1)"
proof (cases "max sw lw \<le> t")
  case True
  then have t: "sw \<le> t" "lw \<le> t" "0 < t" "t - 1 < length xs" using assms by simp_all
  then have now: "rolling_mean sw (map Fin xs) ! t = Fin (moving_average sw xs t)"
      "rolling_mean lw (map Fin xs) ! t = Fin (moving_average lw xs t)"
    using assms by (simp_all add: rolling_mean_Fin_nth)
  have prev: "rolling_mean sw (map Fin xs) ! (t - 1) = Fin (moving_average sw xs (t - 1))"
      "rolling_mean lw (map Fin xs) ! (t - 1) = Fin (moving_average lw xs (t - 1))"
    using assms t by (simp_all add: rolling_mean_Fin_nth)
  show ?thesis
    using True t(3) now prev
    by (simp add: cross_at_def fl_gt_def fl_le_def less_eq_real_def)
next
  case False
  then have "t + 1 < sw \<or> t + 1 < lw \<or> t + 1 = sw \<or> t + 1 = lw"
    by arith
  then consider "t + 1 < sw \<or> t + 1 < lw" | "t + 1 = sw \<or> t + 1 = lw"
    by blast
  then have "\<not> cross_at (rolling_mean sw (map Fin xs)) (rolling_mean lw (map Fin xs)) t"
  proof cases
    case 1
    then show ?thesis
      using assms by (auto simp: cross_at_def rolling_mean_Fin_nth fl_gt_def)
  next
    case 2
    then show ?thesis
      using assms by (auto simp: cross_at_def rolling_mean_Fin_nth fl_le_def)
  qed
  with False show ?thesis by blast
qed

lemma example_cross_times: "cross_times rolling_mean 1 2 example_rows = {2}"
proof -
  have xs: "map (\<lambda>b. Fin (Close b)) example_rows = map Fin [1, 1, 3]"
    and n: "length example_rows = length [1, 1, 3::real]"
    by (simp_all add: example_rows_def)
  have c: "cross_at (rolling_mean 1 (map Fin [1, 1, 3])) (rolling_mean 2 (map Fin [1, 1, 3])) 2"
    by (subst cross_at_exact_mean) (simp_all add: moving_average_def numeral_2_eq_2)
  have r: "t < length [1, 1, 3::real] \<Longrightarrow>
             cross_at (rolling_mean 1 (map Fin [1, 1, 3])) (rolling_mean 2 (map Fin [1, 1, 3])) t
             \<Longrightarrow> t = 2" for t
    by (subst (asm) cross_at_exact_mean) auto
  have "{t. t < length [1, 1, 3::real]
            \<and> cross_at (rolling_mean 1 (map Fin [1, 1, 3])) (rolling_mean 2 (map Fin [1, 1, 3])) t}
          = {2}"
    using c r by auto
  then show ?thesis
    unfolding cross_times_def xs n .
qed

lemma length_summed_rolling_mean [simp]: "length (summed_rolling_mean w xs) = length xs"
  by (simp add: summed_rolling_mean_def)

lemma tie_closes:
  "map (\<lambda>b. Fin (Close b)) tie_rows
     = [Fin (2589569785738035 / 9007199254740992), Fin (3715469692580659 / 9007199254740992),
        Fin (3152519739159347 / 9007199254740992), Fin 1]"
  by (simp add: tie_rows_def)

lemma tie_summed_means:
  "summed_rolling_mean 1 (map (\<lambda>b. Fin (Close b)) tie_rows)
     = [Fin (2589569785738035 / 9007199254740992), Fin (3715469692580659 / 9007199254740992),
        Fin (3152519739159347 / 9007199254740992), Fin 1]"
  "summed_rolling_mean 3 (map (\<lambda>b. Fin (Close b)) tie_rows)
     = [NaN, NaN, Fin (6305039478318693 / 18014398509481984),
        Fin (5291729562160333 / 9007199254740992)]"
  unfolding tie_closes
  by (simp_all add: summed_rolling_mean_def upt_rec [of 0] upt_rec [of 1] upt_rec [of 2]
      upt_rec [of 3] rd_double_eval numeral_3_eq_3 Let_def)

text \<open>
  On these sessions the rounded mean of the first three closes is below the third close,
  so the tie of exact arithmetic at the third session is none on doubles, and no cross is
  found.
\<close>

lemma tie_cross_times: "cross_times summed_rolling_mean 1 3 tie_rows = {}"
proof -
  have n: "length tie_rows = 4" by (simp add: tie_rows_def)
  have "\<not> cross_at (summed_rolling_mean 1 (map (\<lambda>b. Fin (Close b)) tie_rows))
                    (summed_rolling_mean 3 (map (\<lambda>b. Fin (Close b)) tie_rows)) t"
    if "t < 4" for t
  proof -
    from that have "t = 0 \<or> t = 1 \<or> t = 2 \<or> t = 3" by arith
    then show ?thesis
      unfolding tie_summed_means
      by (auto simp: cross_at_def fl_gt_def fl_le_def)
  qed
  then show ?thesis
    by (simp add: cross_times_def n)
qed

text \<open>
  C3. A missing history, or one shorter than the long window, gives the no-signal outcome
  \<open>(None, None)\<close>. On a history of at least \<open>long_window\<close> sessions, whatever rounding
  the rolling means carry (they only have to be series as long as the history), the cross
  date is the date of the most recent session \<open>t\<close> with \<open>short_MA[t] > long_MA[t]\<close> and
  \<open>short_MA[t-1] \<le> long_MA[t-1]\<close>, a tie on the prior session counting as not yet
  crossed; it is \<open>None\<close> when there is no such session.
\<close>

theorem golden_cross_reports_latest_cross:
  "calculate_golden_cross rolling None short_window long_window = (None, None)
   \<and> (length rows < long_window \<longrightarrow>
        calculate_golden_cross rolling (Some rows) short_window long_window = (None, None))
   \<and> ((\<forall>w xs. length (rolling w xs) = length xs) \<and> long_window \<le> length rows \<longrightarrow>
        fst (calculate_golden_cross rolling (Some rows) short_window long_window)
          = (if cross_times rolling short_window long_window rows = {} then None
             else Some (Date (rows ! Max (cross_times rolling short_window long_window rows)))))"
proof -
  have a: "calculate_golden_cross rolling None short_window long_window = (None, None)"
    by (simp add: calculate_golden_cross_def)
  have b: "length rows < long_window \<longrightarrow>
        calculate_golden_cross rolling (Some rows) short_window long_window = (None, None)"
    by (simp add: calculate_golden_cross_def)
  from a b golden_cross_date [of rolling long_window rows short_window] show ?thesis by blast
qed

theorem golden_cross_reports_latest_cross_witness:
  "(\<forall>w xs. length (rolling_mean w xs) = length xs)
   \<and> calculate_golden_cross rolling_mean (Some (take 1 example_rows)) 1 2 = (None, None)
   \<and> cross_times rolling_mean 1 2 example_rows = {2}
   \<and> fst (calculate_golden_cross rolling_mean (Some example_rows) 1 2) = Some 12
   \<and> (\<forall>w xs. length (summed_rolling_mean w xs) = length xs)
   \<and> fst (calculate_golden_cross summed_rolling_mean (Some tie_rows) 1 3) = None"
proof -
  have len': "\<forall>w xs. length (summed_rolling_mean w xs) = length xs" by simp
  have l': "3 \<le> length tie_rows" by (simp add: tie_rows_def)
  have "fst (calculate_golden_cross summed_rolling_mean (Some tie_rows) 1 3)
          = (if cross_times summed_rolling_mean 1 3 tie_rows = {} then None
             else Some (Date (tie_rows ! Max (cross_times summed_rolling_mean 1 3 tie_rows))))"
    using golden_cross_reports_latest_cross [of summed_rolling_mean 1 3 tie_rows] l' len'
    by blast
  then have c: "fst (calculate_golden_cross summed_rolling_mean (Some tie_rows) 1 3) = None"
    unfolding tie_cross_times by simp
  have len: "\<forall>w xs. length (rolling_mean w xs) = length xs" by simp
  have l: "length (take 1 example_rows) < 2" "2 \<le> length example_rows"
    by (simp_all add: example_rows_def)
  have d: "Date (example_rows ! Max {2}) = 12"
    by (simp add: example_rows_def)
  have a: "calculate_golden_cross rolling_mean (Some (take 1 example_rows)) 1 2 = (None, None)"
    using golden_cross_reports_latest_cross [of rolling_mean 1 2 "take 1 example_rows"] l(1)
    by blast
  have "fst (calculate_golden_cross rolling_mean (Some example_rows) 1 2)
          = (if cross_times rolling_mean 1 2 example_rows = {} then None
             else Some (Date (example_rows ! Max (cross_times rolling_mean 1 2 example_rows))))"
    using golden_cross_reports_latest_cross [of rolling_mean 1 2 example_rows] l(2) len
    by blast
  then have b: "fst (calculate_golden_cross rolling_mean (Some example_rows) 1 2) = Some 12"
    by (simp only: example_cross_times d) simp
  from len a b c len' example_cross_times show ?thesis by blast
qed


subsection \<open>Relative strength index\<close>

lemma series_diff_Fin_nth:
  "i < length xs \<Longrightarrow>
   series_diff (map Fin xs) ! i = (if i = 0 then NaN else Fin (xs ! i - xs ! (i - 1)))"
  by (simp add: series_diff_def fl_sub_def)

lemma gains_eq:
  "series_where (series_diff (map Fin xs)) (\<lambda>d. fl_gt d (Fin 0)) (Fin 0)
     = map Fin (map (up_move xs) [0..<length xs])"
  by (rule nth_equalityI)
     (simp_all add: series_where_def series_diff_def fl_sub_def fl_gt_def up_move_def)

lemma losses_eq:
  "map fl_neg (series_where (series_diff (map Fin xs)) (\<lambda>d. fl_less d (Fin 0)) (Fin 0))
     = map Fin (map (down_move xs) [0..<length xs])"
  by (rule nth_equalityI)
     (simp_all add: series_where_def series_diff_def fl_sub_def down_move_def)

lemma calculate_rsi_nth:
  assumes "0 < w" and "w \<le> t + 1" and "t < length data"
  shows "calculate_rsi data w ! t
           = fl_sub (Fin 100) (fl_div (Fin 100) (fl_add (Fin 1)
               (fl_div (Fin (moving_average w (map (up_move (map Close data)) [0..<length data]) t))
                       (Fin (moving_average w (map (down_move (map Close data)) [0..<length data]) t)))))"
proof -
  let ?xs = "map Close data"
  have closes: "map (\<lambda>b. Fin (Close b)) data = map Fin ?xs" by (simp add: comp_def)
  have g: "rolling_mean w (map Fin (map (up_move ?xs) [0..<length data])) ! t
             = Fin (moving_average w (map (up_move ?xs) [0..<length data]) t)"
    by (subst rolling_mean_Fin_nth) (use assms in simp_all)
  have l: "rolling_mean w (map Fin (map (down_move ?xs) [0..<length data])) ! t
             = Fin (moving_average w (map (down_move ?xs) [0..<length data]) t)"
    by (subst rolling_mean_Fin_nth) (use assms in simp_all)
  have len: "length ?xs = length data" by simp
  show ?thesis
    unfolding calculate_rsi_def Let_def closes gains_eq losses_eq len
    using assms(3) by (simp add: g l del: map_map fl_div.simps fl_add.simps)
qed

lemma moving_average_moves:
  assumes "0 < w" and "w \<le> t + 1" and "t < n"
  shows "moving_average w (map f [0..<n]) t = (\<Sum>k<w. f (t - k)) / real w"
  unfolding moving_average_def
  using assms by (intro arg_cong2 [where f = "(/)"] sum.cong) simp_all

lemma rsi_rising:
  assumes "0 < w" and "w \<le> t + 1" and "0 < t" and "t < length data"
    and rise: "\<And>i. 0 < i \<Longrightarrow> t + 1 - w \<le> i \<Longrightarrow> i \<le> t \<Longrightarrow> Close (data ! (i - 1)) < Close (data ! i)"
  shows "calculate_rsi data w ! t = Fin 100"
proof -
  let ?xs = "map Close data"
  have in_window: "t + 1 - w \<le> t - k" if "k < w" for k
    using that assms(2) by simp
  have nthm: "?xs ! (i - 1) = Close (data ! (i - 1))" "?xs ! i = Close (data ! i)"
    if "i \<le> t" for i using that assms(4) by simp_all
  have down0: "down_move ?xs (t - k) = 0" if "k < w" for k
  proof (cases "0 < t - k")
    case True
    from rise [OF True in_window [OF that]] nthm [of "t - k"]
    show ?thesis by (simp add: down_move_def)
  next
    case False
    then show ?thesis by (simp add: down_move_def)
  qed
  have up_nonneg: "0 \<le> up_move ?xs i" for i
    by (simp add: up_move_def)
  have up_t: "0 < up_move ?xs t"
    using rise [of t] assms(1,3) nthm [of t] by (simp add: up_move_def)
  have "0 < (\<Sum>k<w. up_move ?xs (t - k))"
  proof (rule sum_pos2 [where i = 0])
    show "finite {..<w}" by simp
    show "0 \<in> {..<w}" using assms(1) by simp
    show "0 < up_move ?xs (t - 0)" using up_t by simp
    show "\<And>k. k \<in> {..<w} \<Longrightarrow> 0 \<le> up_move ?xs (t - k)" by (rule up_nonneg)
  qed
  then have gpos: "0 < moving_average w (map (up_move ?xs) [0..<length data]) t"
    using assms by (simp add: moving_average_moves)
  have l0: "moving_average w (map (down_move ?xs) [0..<length data]) t = 0"
    using assms down0 by (simp add: moving_average_moves)
  show ?thesis
    using gpos by (simp add: calculate_rsi_nth [OF assms(1) assms(2) assms(4)] l0
        inf_of_sign_def fl_sub_def)
qed

lemma rsi_falling:
  assumes "0 < w" and "w \<le> t + 1" and "0 < t" and "t < length data"
    and fall: "\<And>i. 0 < i \<Longrightarrow> t + 1 - w \<le> i \<Longrightarrow> i \<le> t \<Longrightarrow> Close (data ! i) < Close (data ! (i - 1))"
  shows "calculate_rsi data w ! t = Fin 0"
proof -
  let ?xs = "map Close data"
  have in_window: "t + 1 - w \<le> t - k" if "k < w" for k
    using that assms(2) by simp
  have nthm: "?xs ! (i - 1) = Close (data ! (i - 1))" "?xs ! i = Close (data ! i)"
    if "i \<le> t" for i using that assms(4) by simp_all
  have up0: "up_move ?xs (t - k) = 0" if "k < w" for k
  proof (cases "0 < t - k")
    case True
    from fall [OF True in_window [OF that]] nthm [of "t - k"]
    show ?thesis by (simp add: up_move_def)
  next
    case False
    then show ?thesis by (simp add: up_move_def)
  qed
  have down_nonneg: "0 \<le> down_move ?xs i" for i
    by (simp add: down_move_def)
  have down_t: "0 < down_move ?xs t"
    using fall [of t] assms(1,3) nthm [of t] by (simp add: down_move_def)
  have "0 < (\<Sum>k<w. down_move ?xs (t - k))"
  proof (rule sum_pos2 [where i = 0])
    show "finite {..<w}" by simp
    show "0 \<in> {..<w}" using assms(1) by simp
    show "0 < down_move ?xs (t - 0)" using down_t by simp
    show "\<And>k. k \<in> {..<w} \<Longrightarrow> 0 \<le> down_move ?xs (t - k)" by (rule down_nonneg)
  qed
  then have lpos: "0 < moving_average w (map (down_move ?xs) [0..<length data]) t"
    using assms by (simp add: moving_average_moves)
  have g0: "moving_average w (map (up_move ?xs) [0..<length data]) t = 0"
    using assms up0 by (simp add: moving_average_moves)
  show ?thesis
    using lpos by (simp add: calculate_rsi_nth [OF assms(1) assms(2) assms(4)] g0 fl_sub_def)
qed

text \<open>
  C7. At a session \<open>t\<close> whose window is full and holds at least one delta: when every
  delta of the window is strictly positive (the mean loss is 0, the ratio is an infinity)
  the index is 100, and when every delta of the window is strictly negative (the mean
  gain is 0) the index is 0.
\<close>

theorem rsi_saturates:
  assumes "0 < window" and "window \<le> t + 1" and "0 < t" and "t < length data"
  shows "((\<forall>i. 0 < i \<and> t + 1 - window \<le> i \<and> i \<le> t
              \<longrightarrow> Close (data ! (i - 1)) < Close (data ! i))
            \<longrightarrow> calculate_rsi data window ! t = Fin 100)
         \<and> ((\<forall>i. 0 < i \<and> t + 1 - window \<le> i \<and> i \<le> t
              \<longrightarrow> Close (data ! i) < Close (data ! (i - 1)))
            \<longrightarrow> calculate_rsi data window ! t = Fin 0)"
proof (intro conjI impI)
  assume "\<forall>i. 0 < i \<and> t + 1 - window \<le> i \<and> i \<le> t
              \<longrightarrow> Close (data ! (i - 1)) < Close (data ! i)"
  then show "calculate_rsi data window ! t = Fin 100"
    by (intro rsi_rising [OF assms]) blast
next
  assume "\<forall>i. 0 < i \<and> t + 1 - window \<le> i \<and> i \<le> t
              \<longrightarrow> Close (data ! i) < Close (data ! (i - 1))"
  then show "calculate_rsi data window ! t = Fin 0"
    by (intro rsi_falling [OF assms]) blast
qed

theorem rsi_saturates_witness:
  "calculate_rsi rising_rows 2 ! 2 = Fin 100 \<and> calculate_rsi falling_rows 3 ! 2 = Fin 0"
proof -
  have w2: "(0::nat) < 2" "(2::nat) \<le> 2 + 1" "(0::nat) < 2" "2 < length rising_rows"
    by (simp_all add: rising_rows_def)
  have w3: "(0::nat) < 3" "(3::nat) \<le> 2 + 1" "(0::nat) < 2" "2 < length falling_rows"
    by (simp_all add: falling_rows_def)
  have range: "i = 1 \<or> i = 2" if "0 < i" "i \<le> 2" for i :: nat
    using that by arith
  have up: "\<forall>i. 0 < i \<and> 2 + 1 - 2 \<le> i \<and> i \<le> 2
              \<longrightarrow> Close (rising_rows ! (i - 1)) < Close (rising_rows ! i)"
  proof (intro allI impI)
    fix i :: nat assume "0 < i \<and> 2 + 1 - 2 \<le> i \<and> i \<le> 2"
    then have "i = 1 \<or> i = 2" using range by blast
    then show "Close (rising_rows ! (i - 1)) < Close (rising_rows ! i)"
      by (auto simp: rising_rows_def)
  qed
  have down: "\<forall>i. 0 < i \<and> 2 + 1 - 3 \<le> i \<and> i \<le> 2
              \<longrightarrow> Close (falling_rows ! i) < Close (falling_rows ! (i - 1))"
  proof (intro allI impI)
    fix i :: nat assume "0 < i \<and> 2 + 1 - 3 \<le> i \<and> i \<le> 2"
    then have "i = 1 \<or> i = 2" using range by blast
    then show "Close (falling_rows ! i) < Close (falling_rows ! (i - 1))"
      by (auto simp: falling_rows_def)
  qed
  from rsi_saturates [OF w2] up have a: "calculate_rsi rising_rows 2 ! 2 = Fin 100"
    by blast
  from rsi_saturates [OF w3] down have b: "calculate_rsi falling_rows 3 ! 2 = Fin 0"
    by blast
  from a b show ?thesis by simp
qed


subsection \<open>Fibonacci retracement\<close>

lemma levels_100_0:
  "double_level 100 0 (236 / 1000) = Fin (2688086027586765 / 35184372088832)"
  "double_level 100 0 (382 / 1000) = Fin (4348788390179635 / 70368744177664)"
  "double_level 100 0 (5 / 10) = Fin 50"
  "double_level 100 0 (618 / 1000) = Fin (2688086027586765 / 70368744177664)"
  by (simp_all add: double_level_def literal_doubles rd_double_eval)

lemma fold_fl_max:
  "fold (\<lambda>y best. if fl_less best y then y else best) (map Fin ys) (Fin x) = Fin (fold max ys x)"
  by (induction ys arbitrary: x) (simp_all add: max_def)

lemma fold_fl_min:
  "fold (\<lambda>y best. if fl_less y best then y else best) (map Fin ys) (Fin x) = Fin (fold min ys x)"
  by (induction ys arbitrary: x) (simp_all add: min_def)

lemma series_max_Fin:
  assumes "xs \<noteq> []"
  shows "series_max (map Fin xs) = Fin (Max (set xs))"
proof -
  from assms obtain x rest where xs: "xs = x # rest" by (cases xs) auto
  have "fold max rest x = Max (set (x # rest))"
    by (rule Max.set_eq_fold [symmetric])
  then show ?thesis
    by (simp add: xs series_max_def fold_fl_max)
qed

lemma series_min_Fin:
  assumes "xs \<noteq> []"
  shows "series_min (map Fin xs) = Fin (Min (set xs))"
proof -
  from assms obtain x rest where xs: "xs = x # rest" by (cases xs) auto
  have "fold min rest x = Min (set (x # rest))"
    by (rule Min.set_eq_fold [symmetric])
  then show ?thesis
    by (simp add: xs series_min_def fold_fl_min)
qed

lemma fibonacci_levels_eq:
  assumes "data \<noteq> []"
  shows "calculate_fibonacci_levels data
           = zip fib_labels
               [Fin (Max (High ` set data)
                       - 0 * (Max (High ` set data) - Min (Low ` set data))),
                double_level (Max (High ` set data)) (Min (Low ` set data)) (236 / 1000),
                double_level (Max (High ` set data)) (Min (Low ` set data)) (382 / 1000),
                double_level (Max (High ` set data)) (Min (Low ` set data)) (5 / 10),
                double_level (Max (High ` set data)) (Min (Low ` set data)) (618 / 1000),
                Fin (Max (High ` set data)
                       - 1 * (Max (High ` set data) - Min (Low ` set data)))]"
proof -
  have h: "series_max (map (\<lambda>b. Fin (High b)) data) = Fin (Max (High ` set data))"
    using series_max_Fin [of "map High data"] assms by (simp add: comp_def)
  have l: "series_min (map (\<lambda>b. Fin (Low b)) data) = Fin (Min (Low ` set data))"
    using series_min_Fin [of "map Low data"] assms by (simp add: comp_def)
  show ?thesis
    unfolding calculate_fibonacci_levels_def h l Let_def double_level_def fib_labels_def
    by (simp del: d_sub.simps d_mul.simps)
qed

lemma length_fibonacci_levels: "length (calculate_fibonacci_levels data) = 6"
  by (simp add: calculate_fibonacci_levels_def Let_def)

text \<open>The order of floats that are not NaN, and the first minimum of \<open>py_min\<close>.\<close>

lemma fl_less_trans: "fl_less a b \<Longrightarrow> fl_less b c \<Longrightarrow> fl_less a c"
  by (cases a; cases b; cases c) simp_all

lemma fl_less_irrefl [simp]: "\<not> fl_less a a"
  by (cases a) simp_all

lemma fl_less_not_less:
  "fl_less y b \<Longrightarrow> \<not> fl_less j b \<Longrightarrow> j \<noteq> NaN \<Longrightarrow> fl_less y j"
  by (cases y; cases b; cases j) simp_all

lemma d_sub_Fin_not_NaN: "a \<noteq> NaN \<Longrightarrow> d_sub a (Fin p) \<noteq> NaN"
  by (cases a) (simp_all add: fl_sub_def)

lemma d_sub_from_Fin_not_NaN: "b \<noteq> NaN \<Longrightarrow> d_sub (Fin h) b \<noteq> NaN"
  by (cases b) (simp_all add: fl_sub_def)

lemma d_mul_pos_not_NaN: "0 < c \<Longrightarrow> b \<noteq> NaN \<Longrightarrow> d_mul (Fin c) b \<noteq> NaN"
  by (cases b) (simp_all add: inf_of_sign_def)

lemma fl_abs_not_NaN: "a \<noteq> NaN \<Longrightarrow> fl_abs a \<noteq> NaN"
  by (cases a) simp_all

lemma double_level_not_NaN:
  assumes "rd_double ratio = Fin c" and "0 < c"
  shows "double_level h l ratio \<noteq> NaN"
  unfolding double_level_def assms(1)
  by (intro d_sub_from_Fin_not_NaN d_mul_pos_not_NaN assms(2)) simp

lemma fibonacci_levels_not_NaN:
  "double_level h l (236 / 1000) \<noteq> NaN"
  "double_level h l (382 / 1000) \<noteq> NaN"
  "double_level h l (5 / 10) \<noteq> NaN"
  "double_level h l (618 / 1000) \<noteq> NaN"
  by (rule double_level_not_NaN, rule literal_doubles, simp)+

lemma closest_level_key:
  assumes "data \<noteq> []"
  shows "\<forall>x\<in>set (calculate_fibonacci_levels data). fl_abs (d_sub (snd x) (Fin p)) \<noteq> NaN"
proof -
  have "snd x \<noteq> NaN" if "x \<in> set (calculate_fibonacci_levels data)" for x
    using that fibonacci_levels_not_NaN [of "Max (High ` set data)" "Min (Low ` set data)"]
    unfolding fibonacci_levels_eq [OF assms] fib_labels_def
    by auto
  then show ?thesis
    by (simp add: fl_abs_not_NaN d_sub_Fin_not_NaN)
qed

lemma fold_min_by_invariant:
  assumes "k < length pre"
    and "\<forall>j<length pre. \<not> fl_less (key (pre ! j)) (key (pre ! k))"
    and "\<forall>j<k. fl_less (key (pre ! k)) (key (pre ! j))"
    and "\<forall>x\<in>set (pre @ rest). key x \<noteq> NaN"
  shows "\<exists>k'<length (pre @ rest).
           fold (\<lambda>y best. if fl_less (key y) (key best) then y else best) rest (pre ! k)
             = (pre @ rest) ! k'
           \<and> (\<forall>j<length (pre @ rest). \<not> fl_less (key ((pre @ rest) ! j)) (key ((pre @ rest) ! k')))
           \<and> (\<forall>j<k'. fl_less (key ((pre @ rest) ! k')) (key ((pre @ rest) ! j)))"
  using assms
proof (induction rest arbitrary: pre k)
  case Nil
  then show ?case by auto
next
  case (Cons y ys)
  let ?pre' = "pre @ [y]"
  have app: "pre @ y # ys = ?pre' @ ys" by simp
  have keys': "\<forall>x\<in>set (?pre' @ ys). key x \<noteq> NaN"
    using Cons.prems(4) by simp
  have nn: "key (pre ! j) \<noteq> NaN" if "j < length pre" for j
    using Cons.prems(4) that by simp
  show ?case
  proof (cases "fl_less (key y) (key (pre ! k))")
    case True
    have k': "length pre < length ?pre'" by simp
    have best: "?pre' ! length pre = y" by simp
    have a: "\<forall>j<length ?pre'. \<not> fl_less (key (?pre' ! j)) (key (?pre' ! length pre))"
    proof (intro allI impI)
      fix j assume "j < length ?pre'"
      then consider "j < length pre" | "j = length pre" by force
      then show "\<not> fl_less (key (?pre' ! j)) (key (?pre' ! length pre))"
      proof cases
        case 1
        then have "\<not> fl_less (key (pre ! j)) (key (pre ! k))" using Cons.prems(2) by simp
        with True have "\<not> fl_less (key (pre ! j)) (key y)"
          using fl_less_trans by blast
        with 1 show ?thesis by (simp add: nth_append)
      next
        case 2
        then show ?thesis by simp
      qed
    qed
    have b: "\<forall>j<length pre. fl_less (key (?pre' ! length pre)) (key (?pre' ! j))"
    proof (intro allI impI)
      fix j assume j: "j < length pre"
      then have nl: "\<not> fl_less (key (pre ! j)) (key (pre ! k))" using Cons.prems(2) by simp
      have "fl_less (key y) (key (pre ! j))"
        by (rule fl_less_not_less [OF True nl nn [OF j]])
      with j show "fl_less (key (?pre' ! length pre)) (key (?pre' ! j))"
        by (simp add: nth_append)
    qed
    from Cons.IH [OF k' a b keys']
    show ?thesis using True by (simp only: app best fold_Cons comp_def if_True)
  next
    case False
    have k': "k < length ?pre'" using Cons.prems(1) by simp
    have best: "?pre' ! k = pre ! k" using Cons.prems(1) by (simp add: nth_append)
    have a: "\<forall>j<length ?pre'. \<not> fl_less (key (?pre' ! j)) (key (?pre' ! k))"
    proof (intro allI impI)
      fix j assume "j < length ?pre'"
      then consider "j < length pre" | "j = length pre" by force
      then show "\<not> fl_less (key (?pre' ! j)) (key (?pre' ! k))"
      proof cases
        case 1
        then show ?thesis using Cons.prems(1,2) by (simp add: nth_append)
      next
        case 2
        then show ?thesis using False Cons.prems(1) by (simp add: nth_append)
      qed
    qed
    have b: "\<forall>j<k. fl_less (key (?pre' ! k)) (key (?pre' ! j))"
      using Cons.prems(1,3) by (simp add: nth_append)
    from Cons.IH [OF k' a b keys']
    show ?thesis using False by (simp only: app best fold_Cons comp_def if_False)
  qed
qed

lemma py_min_first_minimal:
  assumes "xs \<noteq> []" and "\<forall>x\<in>set xs. key x \<noteq> NaN"
  shows "\<exists>k<length xs. py_min key xs = Inr (xs ! k)
           \<and> (\<forall>j<length xs. \<not> fl_less (key (xs ! j)) (key (xs ! k)))
           \<and> (\<forall>j<k. fl_less (key (xs ! k)) (key (xs ! j)))"
proof -
  from assms(1) obtain x rest where xs: "xs = x # rest" by (cases xs) auto
  have "\<exists>k'<length ([x] @ rest).
           fold (\<lambda>y best. if fl_less (key y) (key best) then y else best) rest ([x] ! 0)
             = ([x] @ rest) ! k'
           \<and> (\<forall>j<length ([x] @ rest). \<not> fl_less (key (([x] @ rest) ! j)) (key (([x] @ rest) ! k')))
           \<and> (\<forall>j<k'. fl_less (key (([x] @ rest) ! k')) (key (([x] @ rest) ! j)))"
    by (rule fold_min_by_invariant) (use assms(2) xs in simp_all)
  then show ?thesis
    by (simp add: xs py_min_def)
qed

lemma fib_rows_extremes: "Max (High ` set fib_rows) = 100" "Min (Low ` set fib_rows) = 0"
  by (simp_all add: fib_rows_def)

text \<open>
  C8. On a non-empty history with \<open>high = max(High)\<close> and \<open>low = min(Low)\<close>, the levels
  are, in this order, those of the ratios 0, 0.236, 0.382, 0.5, 0.618 and 1: the levels
  of the four inner ratios are \<open>high - ratio * (high - low)\<close> as evaluated on doubles,
  and the levels of the ratios 0 and 1 are \<open>high\<close> and \<open>low\<close>, the exact values of that
  expression. The nearest level to the current price is a level of minimal distance
  \<open>abs(level - current_price)\<close>, as evaluated on doubles, and the first such level in the
  order of definition.
\<close>

theorem fibonacci_levels_and_nearest:
  assumes "data \<noteq> []"
  shows "calculate_fibonacci_levels data
           = zip fib_labels
               [Fin (Max (High ` set data)
                       - 0 * (Max (High ` set data) - Min (Low ` set data))),
                double_level (Max (High ` set data)) (Min (Low ` set data)) (236 / 1000),
                double_level (Max (High ` set data)) (Min (Low ` set data)) (382 / 1000),
                double_level (Max (High ` set data)) (Min (Low ` set data)) (5 / 10),
                double_level (Max (High ` set data)) (Min (Low ` set data)) (618 / 1000),
                Fin (Max (High ` set data)
                       - 1 * (Max (High ` set data) - Min (Low ` set data)))]
         \<and> (\<exists>k<6. closest_level (calculate_fibonacci_levels data) current_price
                      = Inr (calculate_fibonacci_levels data ! k)
                 \<and> (\<forall>j<6. \<not> fl_less (level_distance data current_price j)
                                      (level_distance data current_price k))
                 \<and> (\<forall>j<k. fl_less (level_distance data current_price k)
                                   (level_distance data current_price j)))"
proof -
  let ?levels = "calculate_fibonacci_levels data"
  let ?key = "\<lambda>x. fl_abs (d_sub (snd x) (Fin current_price))"
  have ne: "?levels \<noteq> []"
    by (simp add: calculate_fibonacci_levels_def Let_def)
  have "\<exists>k<length ?levels. py_min ?key ?levels = Inr (?levels ! k)
          \<and> (\<forall>j<length ?levels. \<not> fl_less (?key (?levels ! j)) (?key (?levels ! k)))
          \<and> (\<forall>j<k. fl_less (?key (?levels ! k)) (?key (?levels ! j)))"
    by (rule py_min_first_minimal [OF ne closest_level_key [OF assms]])
  then have "\<exists>k<6. closest_level ?levels current_price = Inr (?levels ! k)
                 \<and> (\<forall>j<6. \<not> fl_less (level_distance data current_price j)
                                      (level_distance data current_price k))
                 \<and> (\<forall>j<k. fl_less (level_distance data current_price k)
                                   (level_distance data current_price j))"
    by (simp only: length_fibonacci_levels closest_level_def level_distance_def)
  with fibonacci_levels_eq [OF assms] show ?thesis by blast
qed


theorem fibonacci_levels_and_nearest_witness:
  "fib_rows \<noteq> []
   \<and> calculate_fibonacci_levels fib_rows
       = [(''0% (High)'', Fin 100),
          (''23.6%'', Fin (2688086027586765 / 35184372088832)),
          (''38.2%'', Fin (4348788390179635 / 70368744177664)),
          (''50%'', Fin 50),
          (''61.8%'', Fin (2688086027586765 / 70368744177664)),
          (''100% (Low)'', Fin 0)]
   \<and> closest_level (calculate_fibonacci_levels fib_rows) 51 = Inr (''50%'', Fin 50)
   \<and> closest_level (calculate_fibonacci_levels fib_rows) (2431240111338291 / 35184372088832)
       = Inr (''38.2%'', Fin (4348788390179635 / 70368744177664))
   \<and> closest_level (calculate_fibonacci_levels fib_rows) (7867225599062835 / 140737488355328)
       = Inr (''38.2%'', Fin (4348788390179635 / 70368744177664))"
proof -
  have ne: "fib_rows \<noteq> []" by (simp add: fib_rows_def)
  have levels: "calculate_fibonacci_levels fib_rows
       = [(''0% (High)'', Fin 100),
          (''23.6%'', Fin (2688086027586765 / 35184372088832)),
          (''38.2%'', Fin (4348788390179635 / 70368744177664)),
          (''50%'', Fin 50),
          (''61.8%'', Fin (2688086027586765 / 70368744177664)),
          (''100% (Low)'', Fin 0)]"
    unfolding conjunct1 [OF fibonacci_levels_and_nearest [OF ne, of 51]]
      fib_rows_extremes levels_100_0 fib_labels_def
    by simp
  have a: "closest_level (calculate_fibonacci_levels fib_rows) 51 = Inr (''50%'', Fin 50)"
    unfolding levels by (simp add: closest_level_def py_min_def rd_double_eval)
  have b: "closest_level (calculate_fibonacci_levels fib_rows) (2431240111338291 / 35184372088832)
       = Inr (''38.2%'', Fin (4348788390179635 / 70368744177664))"
    unfolding levels by (simp add: closest_level_def py_min_def rd_double_eval)
  have c: "closest_level (calculate_fibonacci_levels fib_rows) (7867225599062835 / 140737488355328)
       = Inr (''38.2%'', Fin (4348788390179635 / 70368744177664))"
    unfolding levels by (simp add: closest_level_def py_min_def rd_double_eval)
  from ne levels a b c show ?thesis by simp
qed


section \<open>Properties of the scanner\<close>

lemma process_ticker_try_Ticker:
  "process_ticker_try rolling provider ticker names = Inr r \<Longrightarrow> Ticker r = ticker"
  unfolding process_ticker_try_def
  by (auto simp: Let_def split: sum.splits prod.splits if_splits)

lemma process_ticker_Some_iff:
  "(\<exists>r. process_ticker rolling provider ticker names = Some r) \<longleftrightarrow> succeeds rolling provider names ticker"
  by (simp add: process_ticker_def succeeds_def split: sum.splits)

lemma process_ticker_Ticker:
  "succeeds rolling provider names ticker \<Longrightarrow> Ticker (the (process_ticker rolling provider ticker names)) = ticker"
  by (auto simp: process_ticker_def succeeds_def process_ticker_try_Ticker split: sum.splits)

lemma scan_tickers:
  "map Ticker (List.map_filter (\<lambda>ticker. process_ticker rolling provider ticker names) tickers)
     = filter (succeeds rolling provider names) tickers"
proof -
  have "map Ticker (List.map_filter (\<lambda>ticker. process_ticker rolling provider ticker names) tickers)
          = map (\<lambda>t. Ticker (the (process_ticker rolling provider t names)))
              (filter (succeeds rolling provider names) tickers)"
    by (simp add: List.map_filter_def process_ticker_Some_iff comp_def)
  also have "\<dots> = map (\<lambda>t. t) (filter (succeeds rolling provider names) tickers)"
    by (rule map_cong [OF refl]) (simp add: process_ticker_Ticker)
  finally show ?thesis by simp
qed

lemma distinct_occurrences:
  "distinct xs \<Longrightarrow> length (filter (\<lambda>x. x = t) xs) = (if t \<in> set xs then 1 else 0)"
  by (induction xs) auto

lemma rows_per_ticker:
  assumes "map Ticker rows = filter ok tickers" and "distinct tickers"
  shows "length (filter (\<lambda>r. Ticker r = t) rows) = (if t \<in> set tickers \<and> ok t then 1 else 0)"
proof -
  have "length (filter (\<lambda>r. Ticker r = t) rows) = length (filter (\<lambda>x. x = t) (map Ticker rows))"
    by (simp add: filter_map comp_def)
  also have "\<dots> = length (filter (\<lambda>x. x = t) (filter ok tickers))"
    by (simp only: assms(1))
  also have "\<dots> = (if t \<in> set (filter ok tickers) then 1 else 0)"
    by (rule distinct_occurrences) (simp add: assms(2))
  finally show ?thesis by simp
qed

lemma golden_cross_empty_history:
  "calculate_golden_cross rolling (Some []) 50 200 = (None, None)"
  by (simp add: calculate_golden_cross_def)

lemma example_provider_answers:
  "example_provider ''AAA''
     = \<lparr>feed_info = Inr [''marketCap'' \<mapsto> Some 5], history_2y = Inr [], history_1mo_1h = Inr []\<rparr>"
  "example_provider ''BAD''
     = \<lparr>feed_info = Inr Map.empty, history_2y = Inl ProviderFailure, history_1mo_1h = Inr []\<rparr>"
  "example_provider ''CCC''
     = \<lparr>feed_info = Inr [''marketCap'' \<mapsto> Some 5], history_2y = Inr [], history_1mo_1h = Inr []\<rparr>"
  by (simp_all add: example_provider_def)

lemma example_process_ticker_try:
  "process_ticker_try rolling_mean example_provider ''AAA'' Map.empty
     = Inr \<lparr>Ticker = ''AAA'', Name = ''AAA'', Market_Cap = Number 5,
            Daily_Golden_Cross_Date = None, Status = ''Bearish'',
            Hourly_Golden_Cross_Date = None\<rparr>"
  "process_ticker_try rolling_mean example_provider ''BAD'' Map.empty = Inl ProviderFailure"
  "process_ticker_try rolling_mean example_provider ''CCC'' Map.empty
     = Inr \<lparr>Ticker = ''CCC'', Name = ''CCC'', Market_Cap = Number 5,
            Daily_Golden_Cross_Date = None, Status = ''Bearish'',
            Hourly_Golden_Cross_Date = None\<rparr>"
  by (simp_all add: process_ticker_try_def example_provider_answers golden_cross_empty_history
      dict_get_def)

lemma example_provider_succeeds:
  "succeeds rolling_mean example_provider Map.empty ''AAA''"
  "\<not> succeeds rolling_mean example_provider Map.empty ''BAD''"
  "succeeds rolling_mean example_provider Map.empty ''CCC''"
  by (simp_all add: succeeds_def example_process_ticker_try)

text \<open>
  C4. For a non-empty universe the scan returns a table and does not raise: the tickers
  of its rows are the tickers whose processing succeeded, in the order of the universe,
  so a failed ticker has no row, and the rows and the failed tickers together are as many
  as the tickers; when the tickers are distinct, each successful ticker has exactly one
  row. With three tickers of which one fetch raises, the table has two rows. This holds
  whatever the rolling mean returns.
\<close>

theorem scan_isolates_failures:
  assumes "tickers \<noteq> []"
  shows "\<exists>rows. main rolling provider tickers security_names = Some rows
           \<and> map Ticker rows = filter (succeeds rolling provider security_names) tickers
           \<and> length rows + length (filter (\<lambda>t. \<not> succeeds rolling provider security_names t) tickers)
               = length tickers
           \<and> (distinct tickers \<longrightarrow>
                (\<forall>t. length (filter (\<lambda>r. Ticker r = t) rows)
                       = (if t \<in> set tickers \<and> succeeds rolling provider security_names t
                          then 1 else 0)))"
proof -
  let ?rows = "List.map_filter (\<lambda>ticker. process_ticker rolling provider ticker security_names) tickers"
  have m: "main rolling provider tickers security_names = Some ?rows"
    using assms by (simp add: main_def)
  have t: "map Ticker ?rows = filter (succeeds rolling provider security_names) tickers"
    by (rule scan_tickers)
  have "length ?rows = length (filter (succeeds rolling provider security_names) tickers)"
    using arg_cong [OF t, of length] by simp
  then have l: "length ?rows
                  + length (filter (\<lambda>t. \<not> succeeds rolling provider security_names t) tickers)
                = length tickers"
    by (simp add: sum_length_filter_compl)
  have d: "distinct tickers \<longrightarrow>
             (\<forall>t. length (filter (\<lambda>r. Ticker r = t) ?rows)
                    = (if t \<in> set tickers \<and> succeeds rolling provider security_names t then 1 else 0))"
    using rows_per_ticker [OF t] by blast
  from m t l d show ?thesis by blast
qed

theorem scan_isolates_failures_witness:
  "[''AAA'', ''BAD'', ''CCC''] \<noteq> []
   \<and> process_ticker_try rolling_mean example_provider ''BAD'' Map.empty = Inl ProviderFailure
   \<and> (\<exists>rows. main rolling_mean example_provider [''AAA'', ''BAD'', ''CCC''] Map.empty = Some rows
          \<and> map Ticker rows = [''AAA'', ''CCC''] \<and> length rows = 2)"
proof -
  have ne: "[''AAA'', ''BAD'', ''CCC''] \<noteq> []" by simp
  from scan_isolates_failures [OF ne, of rolling_mean example_provider Map.empty]
  obtain rows where rows: "main rolling_mean example_provider [''AAA'', ''BAD'', ''CCC''] Map.empty = Some rows"
    and t: "map Ticker rows
              = filter (succeeds rolling_mean example_provider Map.empty) [''AAA'', ''BAD'', ''CCC'']"
    by (elim exE conjE)
  have "filter (succeeds rolling_mean example_provider Map.empty) [''AAA'', ''BAD'', ''CCC'']
          = [''AAA'', ''CCC'']"
    by (simp only: filter.simps example_provider_succeeds if_True if_False)
  with t have t': "map Ticker rows = [''AAA'', ''CCC'']" by (rule trans)
  from arg_cong [OF t', of length] have l: "length rows = 2" by simp
  have "main rolling_mean example_provider [''AAA'', ''BAD'', ''CCC''] Map.empty = Some rows
          \<and> map Ticker rows = [''AAA'', ''CCC''] \<and> length rows = 2"
    using rows t' l by (intro conjI)
  then have "\<exists>rows. main rolling_mean example_provider [''AAA'', ''BAD'', ''CCC''] Map.empty = Some rows
          \<and> map Ticker rows = [''AAA'', ''CCC''] \<and> length rows = 2"
    by (rule exI)
  with ne example_process_ticker_try(2) show ?thesis by (intro conjI)
qed

end
